theory Spec2Isabelle
  imports Main
begin

section \<open>Interactive service setup (lib/cli/interactive-setup/service.js)\<close>

text \<open>
  The module is sequential glue over prompts, the file system, a template downloader and a
  package-manager subprocess. The embedding keeps every step of the source as a branch of
  a HOL function: a thrown error is the value \<open>Throws\<close>, a prompt that is never answered
  with an accepted line is \<open>Pending\<close>, and every prompt, write to the standard output,
  file-system call and collaborator call is appended to a log carried by the state.

  A \<open>string\<close> stands for the UTF-8 encoding of the JavaScript string.
\<close>

subsection \<open>Strings\<close>

definition LF :: string where
  "LF = [CHR 0x0A]"

definition DQ :: string where
  "DQ = [CHR 0x22]"

definition SQ :: string where
  "SQ = [CHR 0x27]"

text \<open>\<^verbatim>\<open>Array.prototype.join\<close>.\<close>

fun js_join :: "string \<Rightarrow> string list \<Rightarrow> string" where
  "js_join sep [] = []"
| "js_join sep [x] = x"
| "js_join sep (x # y # ys) = x @ sep @ js_join sep (y # ys)"

text \<open>
  The code points that \<^verbatim>\<open>String.prototype.trim\<close> removes (WhiteSpace and LineTerminator of
  ECMAScript), each in UTF-8: U+0009 to U+000D, U+0020, U+00A0, U+1680, U+2000 to U+200A,
  U+2028, U+2029, U+202F, U+205F, U+3000 and U+FEFF.
\<close>

definition white_space :: "string list" where
  "white_space =
    [[CHR 0x09], [CHR 0x0A], [CHR 0x0B], [CHR 0x0C], [CHR 0x0D], [CHR 0x20],
     [CHR 0xC2, CHR 0xA0],
     [CHR 0xE1, CHR 0x9A, CHR 0x80],
     [CHR 0xE2, CHR 0x80, CHR 0x80], [CHR 0xE2, CHR 0x80, CHR 0x81],
     [CHR 0xE2, CHR 0x80, CHR 0x82], [CHR 0xE2, CHR 0x80, CHR 0x83],
     [CHR 0xE2, CHR 0x80, CHR 0x84], [CHR 0xE2, CHR 0x80, CHR 0x85],
     [CHR 0xE2, CHR 0x80, CHR 0x86], [CHR 0xE2, CHR 0x80, CHR 0x87],
     [CHR 0xE2, CHR 0x80, CHR 0x88], [CHR 0xE2, CHR 0x80, CHR 0x89],
     [CHR 0xE2, CHR 0x80, CHR 0x8A],
     [CHR 0xE2, CHR 0x80, CHR 0xA8], [CHR 0xE2, CHR 0x80, CHR 0xA9],
     [CHR 0xE2, CHR 0x80, CHR 0xAF],
     [CHR 0xE2, CHR 0x81, CHR 0x9F],
     [CHR 0xE3, CHR 0x80, CHR 0x80],
     [CHR 0xEF, CHR 0xBB, CHR 0xBF]]"

text \<open>Removes, as long as there is one, a leading occurrence of one of the given sequences.\<close>

function strip_leading :: "string list \<Rightarrow> string \<Rightarrow> string" where
  "strip_leading ws s =
     (case find (\<lambda>w. w \<noteq> [] \<and> take (length w) s = w) ws of
        None \<Rightarrow> s
      | Some w \<Rightarrow> strip_leading ws (drop (length w) s))"
  by pat_completeness auto
termination
proof (relation "measure (\<lambda>(ws, s). length s)")
  show "wf (measure (\<lambda>(ws, s). length s))" by simp
next
  fix ws :: "string list" and s w :: string
  assume "find (\<lambda>w. w \<noteq> [] \<and> take (length w) s = w) ws = Some w"
  then have "w \<noteq> []" and "take (length w) s = w"
    by (auto simp: find_Some_iff)
  then have "s \<noteq> []" by auto
  with \<open>w \<noteq> []\<close> show "((ws, drop (length w) s), (ws, s)) \<in> measure (\<lambda>(ws, s). length s)"
    by simp
qed

definition trimStart :: "string \<Rightarrow> string" where
  "trimStart s = strip_leading white_space s"

definition trimEnd :: "string \<Rightarrow> string" where
  "trimEnd s = rev (strip_leading (map rev white_space) (rev s))"

definition trim :: "string \<Rightarrow> string" where
  "trim s = trimEnd (trimStart s)"

text \<open>
  Line 16: \<^verbatim>\<open>/^[a-zA-Z][a-zA-Z0-9-]{0,100}$/\<close>. The character classes are ranges of code
  units; without the \<^verbatim>\<open>m\<close> flag \<^verbatim>\<open>$\<close> matches at the end of the input only.
\<close>

definition is_alpha :: "char \<Rightarrow> bool" where
  "is_alpha c =
     (let n = (of_char c :: nat) in (0x41 \<le> n \<and> n \<le> 0x5A) \<or> (0x61 \<le> n \<and> n \<le> 0x7A))"

definition is_alnum_hyphen :: "char \<Rightarrow> bool" where
  "is_alnum_hyphen c =
     (let n = (of_char c :: nat) in
        (0x41 \<le> n \<and> n \<le> 0x5A) \<or> (0x61 \<le> n \<and> n \<le> 0x7A) \<or> (0x30 \<le> n \<and> n \<le> 0x39)
        \<or> n = 0x2D)"

definition isValidServiceName :: "string \<Rightarrow> bool" where
  "isValidServiceName s =
     (case s of
        [] \<Rightarrow> False
      | c # cs \<Rightarrow> is_alpha c \<and> length cs \<le> 100 \<and> list_all is_alnum_hyphen cs)"

subsection \<open>Errors, options, session context\<close>

text \<open>
  A thrown value, as far as the module looks at it: \<^verbatim>\<open>err.constructor.name\<close>,
  \<^verbatim>\<open>err.message\<close> and \<^verbatim>\<open>err.code\<close>.
\<close>

datatype js_error =
  JsError (constructor_name: string) (message: string) (code: "string option")

text \<open>
  Modelled from the spec: \<^verbatim>\<open>lib/serverless-error\<close> is not among the sources. A structured
  error carries a human message and a stable kind tag; \<^verbatim>\<open>new ServerlessError(message, code)\<close>
  keeps the tag as the error's \<^verbatim>\<open>code\<close>.
\<close>

definition ServerlessError :: "string \<Rightarrow> string \<Rightarrow> js_error" where
  "ServerlessError msg tag = JsError ''ServerlessError'' msg (Some tag)"

text \<open>
  What an asynchronous function does: it returns a value, it throws, or it never settles
  (a prompt that is never answered with an accepted line).
\<close>

datatype 'a outcome = Returns 'a | Throws js_error | Pending

text \<open>
  The options object: CLI flag names with string values, in the order of
  \<^verbatim>\<open>Object.keys\<close>. A property read \<^verbatim>\<open>options[k]\<close> is \<open>opt\<close>; \<open>None\<close> is \<^verbatim>\<open>undefined\<close>.
\<close>

type_synonym options = "(string \<times> string) list"

definition Object_keys :: "options \<Rightarrow> string list" where
  "Object_keys opts = map fst opts"

definition opt :: "options \<Rightarrow> string \<Rightarrow> string option" where
  "opt opts k = map_of opts k"

text \<open>JavaScript truthiness of a string or \<^verbatim>\<open>undefined\<close>: the empty string is falsy.\<close>

fun truthy :: "string option \<Rightarrow> bool" where
  "truthy None = False"
| "truthy (Some s) = (s \<noteq> [])"

text \<open>The value itself when it is truthy.\<close>

fun truthy_value :: "string option \<Rightarrow> string option" where
  "truthy_value None = None"
| "truthy_value (Some s) = (if s = [] then None else Some s)"

record 'c session_context =
  cwd :: "string option"
  options :: options
  serviceDir :: "string option"
  configurationFilename :: "string option"
  configuration :: "'c option"

subsection \<open>The world outside the module\<close>

datatype io_event =
    Prompt string
  | StdoutWrite string
  | FsAccess string
  | FsUnlink string
  | CreateFromLocalTemplate string string string
  | DownloadTemplateFromRepo string "string option" string
  | Spawn string "string list" string
  | ResolveConfigurationPath string
  | ReadConfiguration string
  | ResolveVariables

text \<open>
  \<open>files\<close> is the set of paths for which \<^verbatim>\<open>fsp.access\<close> resolves; \<open>io_log\<close> lists, oldest
  first, every interaction with the terminal, the file system and the collaborators.
\<close>

record world =
  files :: "string set"
  io_log :: "io_event list"

definition record_io :: "io_event \<Rightarrow> world \<Rightarrow> world" where
  "record_io e w = w\<lparr>io_log := io_log w @ [e]\<rparr>"

text \<open>
  What the module requires and does not define. \<^verbatim>\<open>path.join\<close> and the two \<^verbatim>\<open>chalk\<close>
  colours are functions on strings. The three \<open>_answer\<close> and \<open>_lines\<close> fields are what the
  user does at the terminal: the choice made at each list prompt, and the lines typed at
  the project-name prompt, in order. A collaborator that changes the file system maps the
  set of files to the error it throws, if any, and the new set of files.
  \<^verbatim>\<open>resolveVariables\<close> is modelled from the spec (it resolves the variable references of the
  context's configuration in place): it yields the resolved configuration.
\<close>

record 'c env =
  process_cwd :: string
  path_join :: "string \<Rightarrow> string \<Rightarrow> string"
  chalk_yellow :: "string \<Rightarrow> string"
  chalk_green :: "string \<Rightarrow> string"
  shouldCreateNewProject_answer :: string
  projectType_answer :: string
  projectName_lines :: "string list"
  fsp_unlink :: "string \<Rightarrow> string set \<Rightarrow> js_error option \<times> string set"
  createFromLocalTemplate ::
    "string \<Rightarrow> string \<Rightarrow> string \<Rightarrow> string set \<Rightarrow> js_error option \<times> string set"
  downloadTemplateFromRepo ::
    "string \<Rightarrow> string option \<Rightarrow> string \<Rightarrow> string set \<Rightarrow> js_error option \<times> string set"
  npmCommandDeferred :: "js_error + string"
  spawn :: "string \<Rightarrow> string list \<Rightarrow> string \<Rightarrow> string set \<Rightarrow> js_error option \<times> string set"
  resolveConfigurationPath :: "string \<Rightarrow> string set \<Rightarrow> js_error + string"
  readConfiguration :: "string \<Rightarrow> string set \<Rightarrow> js_error + 'c"
  resolveVariables :: "'c session_context \<Rightarrow> js_error + 'c"

definition fsp_access :: "string \<Rightarrow> world \<Rightarrow> bool \<times> world" where
  "fsp_access p w = (p \<in> files w, record_io (FsAccess p) w)"

text \<open>A call of a collaborator that may change the file system: logged, then run.\<close>

definition call ::
  "io_event \<Rightarrow> (string set \<Rightarrow> js_error option \<times> string set) \<Rightarrow> world \<Rightarrow> js_error option \<times> world"
where
  "call ev f w = (case f (files w) of (r, fs) \<Rightarrow> (r, (record_io ev w)\<lparr>files := fs\<rparr>))"

subsection \<open>Prompts (lines 35 to 73)\<close>

text \<open>
  Modelled from the spec: \<^verbatim>\<open>inquirer.prompt\<close> is a library outside the sources, a
  capability \<^verbatim>\<open>prompt(spec) -> value\<close> whose \<^verbatim>\<open>spec\<close> declares type, choices, default and
  a validator that accepts or rejects with a message. A list prompt resolves to the choice
  the user makes. An input prompt takes the lines the user types one after the other: an
  empty line stands for the default when there is one; a line the validator rejects is
  asked again; the first accepted line is the answer. When no typed line is accepted the
  prompt never resolves. The choices of the template picker (lines 18 to 33) bound what the
  user can pick; the flow itself compares the answer with \<^verbatim>\<open>other\<close> only, so the answer is
  left unconstrained here.
\<close>

datatype validation = Accepted | Rejected string

fun inquirer_input ::
  "string option \<Rightarrow> (string \<Rightarrow> world \<Rightarrow> validation \<times> world) \<Rightarrow> string list \<Rightarrow> world
     \<Rightarrow> string option \<times> world"
where
  "inquirer_input dflt validate [] w = (None, w)"
| "inquirer_input dflt validate (line # lines) w =
     (let answer = (if line = [] then (case dflt of None \<Rightarrow> [] | Some d \<Rightarrow> d) else line) in
      case validate answer w of
        (Accepted, w1) \<Rightarrow> (Some answer, w1)
      | (Rejected msg, w1) \<Rightarrow> inquirer_input dflt validate lines w1)"

definition projectTypeChoice :: "'c env \<Rightarrow> world \<Rightarrow> string \<times> world" where
  "projectTypeChoice env w = (projectType_answer env, record_io (Prompt ''projectType'') w)"

definition INVALID_PROJECT_NAME_MESSAGE :: string where
  "INVALID_PROJECT_NAME_MESSAGE =
     ''Project name is not valid.'' @ LF @
     ''   - It should only contain alphanumeric and hyphens.'' @ LF @
     ''   - It should start with an alphabetic character.'' @ LF @
     ''   - Shouldn'' @ SQ @ ''t exceed 128 characters''"

text \<open>The \<^verbatim>\<open>validate\<close> callback of the project-name prompt, lines 59 to 71.\<close>

definition projectName_validate ::
  "'c env \<Rightarrow> string \<Rightarrow> string \<Rightarrow> world \<Rightarrow> validation \<times> world"
where
  "projectName_validate env workingDir line w =
     (let input = trim line in
      if \<not> isValidServiceName input then (Rejected INVALID_PROJECT_NAME_MESSAGE, w)
      else (case fsp_access (path_join env workingDir input) w of
              (True, w1) \<Rightarrow> (Rejected (''Path '' @ input @ '' is already taken''), w1)
            | (False, w1) \<Rightarrow> (Accepted, w1)))"

definition projectNameInput ::
  "'c env \<Rightarrow> string \<Rightarrow> string option \<Rightarrow> world \<Rightarrow> string outcome \<times> world"
where
  "projectNameInput env workingDir projectType w =
     (case inquirer_input
             (case projectType of
                None \<Rightarrow> None
              | Some t \<Rightarrow> if t \<noteq> [] then Some (t @ ''-project'') else None)
             (projectName_validate env workingDir)
             (projectName_lines env)
             (record_io (Prompt ''projectName'') w) of
        (None, w1) \<Rightarrow> (Pending, w1)
      | (Some answer, w1) \<Rightarrow> (Returns (trim answer), w1))"

subsection \<open>Project naming (lines 75 to 100)\<close>

text \<open>
  \<^verbatim>\<open>if (options.name)\<close> tests truthiness: a name that is absent or the empty string goes
  to the prompt.
\<close>

definition resolveProjectNameInput ::
  "'c env \<Rightarrow> options \<Rightarrow> string \<Rightarrow> string option \<Rightarrow> world \<Rightarrow> string outcome \<times> world"
where
  "resolveProjectNameInput env opts workingDir projectType w =
     (case opt opts ''name'' of
        None \<Rightarrow> projectNameInput env workingDir projectType w
      | Some name \<Rightarrow>
          if name = [] then projectNameInput env workingDir projectType w
          else if \<not> isValidServiceName name then
            (Throws (ServerlessError INVALID_PROJECT_NAME_MESSAGE ''INVALID_PROJECT_NAME''), w)
          else (case fsp_access (path_join env workingDir name) w of
                  (True, w1) \<Rightarrow>
                    (Throws (ServerlessError (''Path '' @ name @ '' is already taken'')
                               ''TARGET_FOLDER_ALREADY_EXISTS''), w1)
                | (False, w1) \<Rightarrow> (Returns name, w1)))"

subsection \<open>The option guard (lines 103 to 117)\<close>

definition notApplicableOptions :: "string list" where
  "notApplicableOptions = [''name'', ''template-path'', ''template'', ''template-url'']"

definition quoted_flag :: "string \<Rightarrow> string" where
  "quoted_flag k = DQ @ ''--'' @ k @ DQ"

definition NOT_APPLICABLE_MESSAGE :: string where
  "NOT_APPLICABLE_MESSAGE =
     ''Cannot setup a new service when being in context of another service (''
     @ js_join '', '' (map quoted_flag notApplicableOptions) @ '' options cannot be applied)''"

definition isApplicable :: "'c session_context \<Rightarrow> js_error + bool" where
  "isApplicable ctx =
     (if truthy (serviceDir ctx)
         \<and> list_ex (\<lambda>key. key \<in> set notApplicableOptions) (Object_keys (options ctx))
      then Inl (ServerlessError NOT_APPLICABLE_MESSAGE ''NOT_APPLICABLE_SERVICE_OPTIONS'')
      else Inr (\<not> truthy (serviceDir ctx)))"

subsection \<open>The flow (lines 118 to 255)\<close>

definition templateOptions :: "string list" where
  "templateOptions = [''template-path'', ''template'', ''template-url'']"

text \<open>Line 119.\<close>

definition workingDir_of :: "'c env \<Rightarrow> 'c session_context \<Rightarrow> string" where
  "workingDir_of env ctx =
     (case truthy_value (cwd ctx) of Some dir \<Rightarrow> dir | None \<Rightarrow> process_cwd env)"

text \<open>
  Lines 132 to 147: the confirmation prompt, asked when none of the four options is truthy.
  The result is \<open>False\<close> when \<^verbatim>\<open>run\<close> returns here.
\<close>

definition confirmNewProject :: "'c env \<Rightarrow> options \<Rightarrow> world \<Rightarrow> bool \<times> world" where
  "confirmNewProject env opts w =
     (if \<not> truthy (opt opts ''name'') \<and> \<not> truthy (opt opts ''template-path'')
         \<and> \<not> truthy (opt opts ''template'') \<and> \<not> truthy (opt opts ''template-url'')
      then (shouldCreateNewProject_answer env = ''Yes'',
            record_io (Prompt ''shouldCreateNewProject'') w)
      else (True, w))"

text \<open>The error thrown by the \<^verbatim>\<open>catch\<close> block of lines 166 to 173.\<close>

definition catch_template_url :: "js_error \<Rightarrow> js_error" where
  "catch_template_url err =
     (if constructor_name err \<noteq> ''ServerlessError'' then err
      else ServerlessError
             (''Could not download template from provided url. Ensure that the template ''
              @ ''provided with '' @ DQ @ ''--template-url'' @ DQ @ '' exists: '' @ message err)
             ''INVALID_TEMPLATE_URL'')"

text \<open>The error thrown by the \<^verbatim>\<open>catch\<close> block of lines 194 to 208.\<close>

definition catch_template :: "options \<Rightarrow> js_error \<Rightarrow> js_error" where
  "catch_template opts err =
     (if code err = Some ''ENOENT'' \<and> truthy (opt opts ''template'') then
        ServerlessError
          (''Could not find provided template. Ensure that the template provided with ''
           @ DQ @ ''--template'' @ DQ @ '' exists.'')
          ''INVALID_TEMPLATE''
      else if constructor_name err \<noteq> ''ServerlessError'' then err
      else ServerlessError
             (''Could not download template. Ensure that you are using the latest version ''
              @ ''of Serverless Framework: '' @ message err)
             ''TEMPLATE_DOWNLOAD_FAILED'')"

text \<open>
  Lines 181 to 184. The two quotation marks around the command are U+201C and U+201D.
\<close>

definition OTHER_HINT :: string where
  "OTHER_HINT =
     LF @ ''Run '' @ [CHR 0xE2, CHR 0x80, CHR 0x9C] @ ''serverless create --help''
     @ [CHR 0xE2, CHR 0x80, CHR 0x9D]
     @ '' to view available templates and create a new project ''
     @ ''from one of those templates.'' @ LF"

text \<open>
  Lines 175 to 187: the template identifier of the named-template path, from the option or
  from the picker; \<open>None\<close> when the user picks \<^verbatim>\<open>other\<close> and \<^verbatim>\<open>run\<close> returns.
\<close>

definition chooseProjectType :: "'c env \<Rightarrow> options \<Rightarrow> world \<Rightarrow> string option \<times> world" where
  "chooseProjectType env opts w =
     (case truthy_value (opt opts ''template'') of
        Some template \<Rightarrow> (Some template, w)
      | None \<Rightarrow>
          (case projectTypeChoice env w of
             (projectType, w1) \<Rightarrow>
               if projectType = ''other'' then (None, record_io (StdoutWrite OTHER_HINT) w1)
               else (Some projectType, w1)))"

text \<open>
  Lines 149 to 209: the project is named and materialized from one of the three sources,
  chosen by the truthiness of the options. The result of each is the pair
  \<open>(projectDir, projectName)\<close>, or \<open>None\<close> when \<^verbatim>\<open>run\<close> returns at line 185.
\<close>

text \<open>Lines 152 to 158.\<close>

definition fromTemplatePath ::
  "'c env \<Rightarrow> options \<Rightarrow> string \<Rightarrow> string \<Rightarrow> world
     \<Rightarrow> (string \<times> string) option outcome \<times> world"
where
  "fromTemplatePath env opts workingDir templatePath w =
     (case resolveProjectNameInput env opts workingDir None w of
        (Pending, w1) \<Rightarrow> (Pending, w1)
      | (Throws e, w1) \<Rightarrow> (Throws e, w1)
      | (Returns projectName, w1) \<Rightarrow>
          (let projectDir = path_join env workingDir projectName
           in case call (CreateFromLocalTemplate templatePath projectDir projectName)
                     (createFromLocalTemplate env templatePath projectDir projectName) w1 of
                (Some err, w2) \<Rightarrow> (Throws err, w2)
              | (None, w2) \<Rightarrow> (Returns (Some (projectDir, projectName)), w2)))"

text \<open>Lines 160 to 173.\<close>

definition fromTemplateUrl ::
  "'c env \<Rightarrow> options \<Rightarrow> string \<Rightarrow> string \<Rightarrow> world
     \<Rightarrow> (string \<times> string) option outcome \<times> world"
where
  "fromTemplateUrl env opts workingDir templateUrl w =
     (case resolveProjectNameInput env opts workingDir None w of
        (Pending, w1) \<Rightarrow> (Pending, w1)
      | (Throws e, w1) \<Rightarrow> (Throws e, w1)
      | (Returns projectName, w1) \<Rightarrow>
          (let projectDir = path_join env workingDir projectName;
               w2 = record_io (StdoutWrite (LF @ ''Downloading template from provided url: ''
                                            @ templateUrl @ ''...'' @ LF)) w1
           in case call (DownloadTemplateFromRepo templateUrl None projectName)
                     (downloadTemplateFromRepo env templateUrl None projectName) w2 of
                (Some err, w3) \<Rightarrow> (Throws (catch_template_url err), w3)
              | (None, w3) \<Rightarrow> (Returns (Some (projectDir, projectName)), w3)))"

text \<open>Lines 175 to 208.\<close>

definition fromTemplateName ::
  "'c env \<Rightarrow> options \<Rightarrow> string \<Rightarrow> world \<Rightarrow> (string \<times> string) option outcome \<times> world"
where
  "fromTemplateName env opts workingDir w =
     (case chooseProjectType env opts w of
        (None, w1) \<Rightarrow> (Returns None, w1)
      | (Some projectType, w1) \<Rightarrow>
          (case resolveProjectNameInput env opts workingDir (Some projectType) w1 of
             (Pending, w2) \<Rightarrow> (Pending, w2)
           | (Throws e, w2) \<Rightarrow> (Throws e, w2)
           | (Returns projectName, w2) \<Rightarrow>
               (let projectDir = path_join env workingDir projectName;
                    templateUrl =
                      ''https://github.com/serverless/examples/tree/master/'' @ projectType;
                    w3 = record_io (StdoutWrite (LF @ ''Downloading '' @ DQ @ projectType
                                                 @ DQ @ '' template...'' @ LF)) w2
                in case call (DownloadTemplateFromRepo templateUrl (Some projectType)
                                projectName)
                          (downloadTemplateFromRepo env templateUrl (Some projectType)
                             projectName) w3 of
                     (Some err, w4) \<Rightarrow> (Throws (catch_template opts err), w4)
                   | (None, w4) \<Rightarrow> (Returns (Some (projectDir, projectName)), w4))))"

text \<open>The dispatch of lines 151, 159 and 174.\<close>

definition acquireTemplate ::
  "'c env \<Rightarrow> options \<Rightarrow> string \<Rightarrow> world \<Rightarrow> (string \<times> string) option outcome \<times> world"
where
  "acquireTemplate env opts workingDir w =
     (case truthy_value (opt opts ''template-path'') of
        Some templatePath \<Rightarrow> fromTemplatePath env opts workingDir templatePath w
      | None \<Rightarrow>
          (case truthy_value (opt opts ''template-url'') of
             Some templateUrl \<Rightarrow> fromTemplateUrl env opts workingDir templateUrl w
           | None \<Rightarrow> fromTemplateName env opts workingDir w))"

definition NPM_MISSING_WARNING :: string where
  "NPM_MISSING_WARNING =
     ''Cannot install dependencies as '' @ DQ @ ''npm'' @ DQ
     @ '' installation could not be found. Please install npm and run '' @ DQ @ ''npm install''
     @ DQ @ '' in directory of created service.''"

text \<open>Line 220.\<close>

definition INSTALLING_MESSAGE :: "string \<Rightarrow> string" where
  "INSTALLING_MESSAGE projectName =
     LF @ ''Installing dependencies with '' @ DQ @ ''npm'' @ DQ @ '' in '' @ DQ @ projectName
     @ DQ @ '' folder.'' @ LF"

text \<open>Lines 211 to 238; the result is the error thrown, if any.\<close>

definition installDependencies ::
  "'c env \<Rightarrow> string \<Rightarrow> string \<Rightarrow> world \<Rightarrow> js_error option \<times> world"
where
  "installDependencies env projectDir projectName w =
     (case fsp_access (path_join env projectDir ''package.json'') w of
        (False, w1) \<Rightarrow> (None, w1)
      | (True, w1) \<Rightarrow>
          (let w2 = record_io (StdoutWrite (INSTALLING_MESSAGE projectName)) w1
           in case npmCommandDeferred env of
                Inl e \<Rightarrow> (Some e, w2)
              | Inr npmCommand \<Rightarrow>
                  (case call (Spawn npmCommand [''install''] projectDir)
                          (spawn env npmCommand [''install''] projectDir) w2 of
                     (None, w3) \<Rightarrow> (None, w3)
                   | (Some err, w3) \<Rightarrow>
                       if code err = Some ''ENOENT'' then
                         (None, record_io (StdoutWrite (LF @ chalk_yellow env NPM_MISSING_WARNING
                                                        @ LF)) w3)
                       else
                         (Some (ServerlessError (''Cannot install dependencies: '' @ message err)
                                  ''DEPENDENCIES_INSTALL_FAILED''), w3))))"

text \<open>
  Lines 240 to 254. A failure of \<^verbatim>\<open>unlink\<close> is swallowed. The context is assigned field by
  field, so a failure of a later step leaves the earlier assignments in place.
  \<^verbatim>\<open>slice(projectDir.length + 1)\<close> drops the directory and the separator from the
  configuration path.
\<close>

definition finalize ::
  "'c env \<Rightarrow> 'c session_context \<Rightarrow> string \<Rightarrow> string \<Rightarrow> world
     \<Rightarrow> unit outcome \<times> 'c session_context \<times> world"
where
  "finalize env ctx projectDir projectName w =
     (let marker = path_join env projectDir ''serverless.template.yml'';
          w1 = snd (call (FsUnlink marker) (fsp_unlink env marker) w);
          w2 = record_io (StdoutWrite (LF @ chalk_green env (''Project successfully created in ''
                                          @ SQ @ projectName @ SQ @ '' folder.'') @ LF)) w1;
          ctx1 = ctx\<lparr>serviceDir := Some projectDir\<rparr>;
          w3 = record_io (ResolveConfigurationPath projectDir) w2
      in case resolveConfigurationPath env projectDir (files w3) of
           Inl e \<Rightarrow> (Throws e, ctx1, w3)
         | Inr configurationPath \<Rightarrow>
             (let ctx2 = ctx1\<lparr>configurationFilename :=
                                Some (drop (length projectDir + 1) configurationPath)\<rparr>;
                  w4 = record_io (ReadConfiguration configurationPath) w3
              in case readConfiguration env configurationPath (files w4) of
                   Inl e \<Rightarrow> (Throws e, ctx2, w4)
                 | Inr cfg \<Rightarrow>
                     (let ctx3 = ctx2\<lparr>configuration := Some cfg\<rparr>;
                          w5 = record_io ResolveVariables w4
                      in case resolveVariables env ctx3 of
                           Inl e \<Rightarrow> (Throws e, ctx3, w5)
                         | Inr cfg' \<Rightarrow> (Returns (), ctx3\<lparr>configuration := Some cfg'\<rparr>, w5))))"

definition MULTIPLE_TEMPLATE_OPTIONS_MESSAGE :: string where
  "MULTIPLE_TEMPLATE_OPTIONS_MESSAGE =
     ''You can provide only one of: '' @ js_join '', '' (map quoted_flag templateOptions)
     @ '' options''"

definition run ::
  "'c env \<Rightarrow> 'c session_context \<Rightarrow> world \<Rightarrow> unit outcome \<times> 'c session_context \<times> world"
where
  "run env ctx w =
     (let workingDir = workingDir_of env ctx in
      if length (filter (\<lambda>key. key \<in> set templateOptions) (Object_keys (options ctx))) > 1 then
        (Throws (ServerlessError MULTIPLE_TEMPLATE_OPTIONS_MESSAGE
                   ''MULTIPLE_TEMPLATE_OPTIONS_PROVIDED''), ctx, w)
      else
        (case confirmNewProject env (options ctx) w of
           (False, w1) \<Rightarrow> (Returns (), ctx, w1)
         | (True, w1) \<Rightarrow>
             (case acquireTemplate env (options ctx) workingDir w1 of
                (Pending, w2) \<Rightarrow> (Pending, ctx, w2)
              | (Throws e, w2) \<Rightarrow> (Throws e, ctx, w2)
              | (Returns None, w2) \<Rightarrow> (Returns (), ctx, w2)
              | (Returns (Some (projectDir, projectName)), w2) \<Rightarrow>
                  (case installDependencies env projectDir projectName w2 of
                     (Some e, w3) \<Rightarrow> (Throws e, ctx, w3)
                   | (None, w3) \<Rightarrow> finalize env ctx projectDir projectName w3))))"

subsection \<open>Concrete sessions\<close>

text \<open>
  A session in which every collaborator succeeds: the downloader creates the project
  directory with a configuration file and a package manifest, the package manager is
  installed, and the user answers \<^verbatim>\<open>Yes\<close>, picks \<^verbatim>\<open>aws-node\<close> and types a name with
  blanks around it.
\<close>

definition demo_env :: "string env" where
  "demo_env =
     \<lparr>process_cwd = ''/work'',
      path_join = (\<lambda>dir name. dir @ ''/'' @ name),
      chalk_yellow = (\<lambda>s. s),
      chalk_green = (\<lambda>s. s),
      shouldCreateNewProject_answer = ''Yes'',
      projectType_answer = ''aws-node'',
      projectName_lines = ['' my-service ''],
      fsp_unlink = (\<lambda>path fs.
        (if path \<in> fs then None else Some (JsError ''Error'' ''no such file'' (Some ''ENOENT'')),
         fs - {path})),
      createFromLocalTemplate = (\<lambda>templatePath projectDir projectName fs.
        (None, insert (projectDir @ ''/serverless.yml'') (insert projectDir fs))),
      downloadTemplateFromRepo = (\<lambda>url tag name fs.
        (None, insert (''/work/'' @ name @ ''/package.json'')
                 (insert (''/work/'' @ name @ ''/serverless.yml'')
                    (insert (''/work/'' @ name) fs)))),
      npmCommandDeferred = Inr ''npm'',
      spawn = (\<lambda>command args dir fs. (None, insert (dir @ ''/node_modules'') fs)),
      resolveConfigurationPath = (\<lambda>dir fs.
        if dir @ ''/serverless.yml'' \<in> fs then Inr (dir @ ''/serverless.yml'')
        else Inl (JsError ''Error'' ''no configuration file'' None)),
      readConfiguration = (\<lambda>path fs. Inr ''service: demo''),
      resolveVariables = (\<lambda>ctx.
        case configuration ctx of
          Some cfg \<Rightarrow> Inr cfg
        | None \<Rightarrow> Inl (JsError ''Error'' ''no configuration'' None))\<rparr>"

definition empty_world :: world where
  "empty_world = \<lparr>files = {}, io_log = []\<rparr>"

definition demo_context :: "options \<Rightarrow> string session_context" where
  "demo_context opts =
     \<lparr>cwd = Some ''/work'', options = opts, serviceDir = None,
      configurationFilename = None, configuration = None\<rparr>"

text \<open>The downloader fails in the given way and leaves the file system as it is.\<close>

definition download_fails :: "js_error \<Rightarrow> string env" where
  "download_fails err = demo_env\<lparr>downloadTemplateFromRepo := (\<lambda>url tag name fs. (Some err, fs))\<rparr>"

text \<open>The downloaded template has no package manifest.\<close>

definition no_manifest :: "string env" where
  "no_manifest =
     demo_env\<lparr>downloadTemplateFromRepo := (\<lambda>url tag name fs.
       (None, insert (''/work/'' @ name @ ''/serverless.yml'') (insert (''/work/'' @ name) fs)))\<rparr>"

text \<open>The package manager fails in the given way.\<close>

definition spawn_fails :: "js_error \<Rightarrow> string env" where
  "spawn_fails err = demo_env\<lparr>spawn := (\<lambda>command args dir fs. (Some err, fs))\<rparr>"

text \<open>Options naming two template sources at once.\<close>

definition two_sources :: options where
  "two_sources = [(''template'', ''aws-node''), (''template-url'', ''https://example.com/t'')]"

text \<open>Two template sources given as empty strings.\<close>

definition two_empty_sources :: options where
  "two_empty_sources = [(''template-path'', []), (''template-url'', [])]"

text \<open>The user picks \<^verbatim>\<open>other\<close> at the template picker.\<close>

definition picks_other :: "string env" where
  "picks_other = demo_env\<lparr>projectType_answer := ''other''\<rparr>"

text \<open>A session inside an existing service.\<close>

definition inside_service :: "options \<Rightarrow> string session_context" where
  "inside_service opts = (demo_context opts)\<lparr>serviceDir := Some ''/work/existing''\<rparr>"

text \<open>A template given by URL, and one given by name, each with an explicit project name.\<close>

definition url_options :: options where
  "url_options = [(''template-url'', ''https://example.com/t''), (''name'', ''demo1'')]"

definition named_options :: options where
  "named_options = [(''template'', ''aws-node''), (''name'', ''demo1'')]"

text \<open>Errors a collaborator may throw: a programming error, a structured error, a missing file.\<close>

definition type_error :: js_error where
  "type_error = JsError ''TypeError'' ''x is not a function'' None"

definition structured_error :: js_error where
  "structured_error = ServerlessError ''Repository not reachable'' ''DOWNLOAD_ERROR''"

definition enoent_error :: js_error where
  "enoent_error = JsError ''Error'' ''ENOENT: no such file or directory'' (Some ''ENOENT'')"

definition exit_error :: js_error where
  "exit_error = JsError ''Error'' ''npm exited with code 1'' (Some ''EXIT'')"

text \<open>The user types \<^verbatim>\<open>demo1\<close> with a blank on each side at the project-name prompt.\<close>

definition types_padded_demo1 :: "string env" where
  "types_padded_demo1 = demo_env\<lparr>projectName_lines := ['' demo1 '']\<rparr>"

text \<open>The deferred resolution of the package-manager command rejects.\<close>

definition lookup_error :: js_error where
  "lookup_error = JsError ''Error'' ''npm lookup failed'' None"

definition npm_unresolved :: "string env" where
  "npm_unresolved = demo_env\<lparr>npmCommandDeferred := Inl lookup_error\<rparr>"


section \<open>Properties\<close>

subsection \<open>Keys of the options object\<close>

lemma key_present_iff: "k \<in> set (Object_keys opts) \<longleftrightarrow> opt opts k \<noteq> None"
  by (simp add: Object_keys_def opt_def map_of_eq_None_iff)

lemma two_template_keys_counted:
  assumes "2 \<le> card (set templateOptions \<inter> set (Object_keys opts))"
  shows "1 < length (filter (\<lambda>key. key \<in> set templateOptions) (Object_keys opts))"
proof -
  let ?ks = "filter (\<lambda>key. key \<in> set templateOptions) (Object_keys opts)"
  have "set ?ks = set templateOptions \<inter> set (Object_keys opts)"
    by auto
  then have "card (set templateOptions \<inter> set (Object_keys opts)) \<le> length ?ks"
    using card_length [of ?ks] by simp
  with assms show ?thesis by linarith
qed

lemma no_template_keys_counted:
  assumes "\<forall>k \<in> set templateOptions. opt opts k = None"
  shows "length (filter (\<lambda>key. key \<in> set templateOptions) (Object_keys opts)) = 0"
  using assms by (auto simp: filter_empty_conv key_present_iff)

lemma set_templateOptions:
  "set templateOptions = {''template-path'', ''template'', ''template-url''}"
  by (simp add: templateOptions_def)

lemma MULTIPLE_TEMPLATE_OPTIONS_MESSAGE_text:
  "MULTIPLE_TEMPLATE_OPTIONS_MESSAGE =
     ''You can provide only one of: '' @ DQ @ ''--template-path'' @ DQ @ '', '' @ DQ
     @ ''--template'' @ DQ @ '', '' @ DQ @ ''--template-url'' @ DQ @ '' options''"
  by (simp add: MULTIPLE_TEMPLATE_OPTIONS_MESSAGE_def templateOptions_def quoted_flag_def)

subsection \<open>More than one template source\<close>

text \<open>
  C3. Whenever two or more of the keys \<^verbatim>\<open>template-path\<close>, \<^verbatim>\<open>template\<close> and
  \<^verbatim>\<open>template-url\<close> are keys of the options, \<^verbatim>\<open>run\<close> throws the structured error tagged
  \<^verbatim>\<open>MULTIPLE_TEMPLATE_OPTIONS_PROVIDED\<close>, and it does so before any prompt, write, file-system
  call or collaborator call: the world, with its log, and the context are returned as they
  were given.
\<close>

theorem run_rejects_multiple_template_options:
  assumes "2 \<le> card ({''template-path'', ''template'', ''template-url''}
                        \<inter> set (Object_keys (options ctx)))"
  shows "run env ctx w =
           (Throws (ServerlessError MULTIPLE_TEMPLATE_OPTIONS_MESSAGE
                      ''MULTIPLE_TEMPLATE_OPTIONS_PROVIDED''), ctx, w)"
proof -
  from assms
  have "1 < length (filter (\<lambda>key. key \<in> set templateOptions) (Object_keys (options ctx)))"
    using two_template_keys_counted [of "options ctx"] by (simp add: set_templateOptions)
  then show ?thesis
    by (simp add: run_def)
qed

theorem run_rejects_multiple_template_options_witness:
  "2 \<le> card ({''template-path'', ''template'', ''template-url''}
               \<inter> set (Object_keys (options (demo_context two_sources))))
   \<and> run demo_env (demo_context two_sources) empty_world =
       (Throws (ServerlessError MULTIPLE_TEMPLATE_OPTIONS_MESSAGE
                  ''MULTIPLE_TEMPLATE_OPTIONS_PROVIDED''),
        demo_context two_sources, empty_world)"
proof -
  have present: "2 \<le> card ({''template-path'', ''template'', ''template-url''}
                   \<inter> set (Object_keys (options (demo_context two_sources))))"
    by (simp add: demo_context_def two_sources_def Object_keys_def)
  from present run_rejects_multiple_template_options [OF present, of demo_env empty_world]
  show ?thesis by simp
qed

subsection \<open>The option guard\<close>

lemma NOT_APPLICABLE_MESSAGE_text:
  "NOT_APPLICABLE_MESSAGE =
     ''Cannot setup a new service when being in context of another service ('' @ DQ
     @ ''--name'' @ DQ @ '', '' @ DQ @ ''--template-path'' @ DQ @ '', '' @ DQ @ ''--template''
     @ DQ @ '', '' @ DQ @ ''--template-url'' @ DQ @ '' options cannot be applied)''"
  by (simp add: NOT_APPLICABLE_MESSAGE_def notApplicableOptions_def quoted_flag_def)

text \<open>
  C4. When a service directory is active and one of the keys \<^verbatim>\<open>name\<close>, \<^verbatim>\<open>template-path\<close>,
  \<^verbatim>\<open>template\<close>, \<^verbatim>\<open>template-url\<close> is present in the options, whatever its value,
  \<^verbatim>\<open>isApplicable\<close> throws the structured error tagged \<^verbatim>\<open>NOT_APPLICABLE_SERVICE_OPTIONS\<close>.
  In every other case it returns a boolean, which is true exactly when no service
  directory is active.
\<close>

theorem isApplicable_guard:
  "(truthy (serviceDir ctx)
      \<and> (\<exists>k \<in> {''name'', ''template-path'', ''template'', ''template-url''}.
            opt (options ctx) k \<noteq> None)
    \<longrightarrow> isApplicable ctx
          = Inl (ServerlessError NOT_APPLICABLE_MESSAGE ''NOT_APPLICABLE_SERVICE_OPTIONS''))
   \<and> (\<not> (truthy (serviceDir ctx)
           \<and> (\<exists>k \<in> {''name'', ''template-path'', ''template'', ''template-url''}.
                 opt (options ctx) k \<noteq> None))
    \<longrightarrow> isApplicable ctx = Inr (\<not> truthy (serviceDir ctx)))"
proof -
  have "list_ex (\<lambda>key. key \<in> set notApplicableOptions) (Object_keys (options ctx))
        \<longleftrightarrow> (\<exists>k \<in> {''name'', ''template-path'', ''template'', ''template-url''}.
               opt (options ctx) k \<noteq> None)"
    unfolding list_ex_iff notApplicableOptions_def
    using key_present_iff [of _ "options ctx"] by auto
  then show ?thesis
    by (simp add: isApplicable_def)
qed

theorem isApplicable_guard_witness:
  "isApplicable (inside_service [(''name'', ''demo1'')])
     = Inl (ServerlessError NOT_APPLICABLE_MESSAGE ''NOT_APPLICABLE_SERVICE_OPTIONS'')
   \<and> isApplicable (inside_service [(''stage'', ''dev'')]) = Inr False
   \<and> isApplicable (demo_context [(''name'', ''demo1'')]) = Inr True"
  using isApplicable_guard [of "inside_service [(''name'', ''demo1'')]"]
    isApplicable_guard [of "inside_service [(''stage'', ''dev'')]"]
    isApplicable_guard [of "demo_context [(''name'', ''demo1'')]"]
  by (simp add: inside_service_def demo_context_def opt_def)

subsection \<open>Presence against truthiness\<close>

text \<open>
  C10. The guard of lines 121 to 130 counts keys, the dispatch below it tests values. When
  two or more of the three template keys are present and every template key is mapped to
  the empty string, \<^verbatim>\<open>run\<close> throws \<^verbatim>\<open>MULTIPLE_TEMPLATE_OPTIONS_PROVIDED\<close> without any I/O,
  although none of the three options is truthy: from any state the dispatch would take
  the named-template branch, and that branch would ask the template picker.
\<close>

theorem run_counts_keys_not_values:
  assumes "2 \<le> card ({''template-path'', ''template'', ''template-url''}
                        \<inter> set (Object_keys (options ctx)))"
    and "\<forall>(k, v) \<in> set (options ctx).
           k \<in> {''template-path'', ''template'', ''template-url''} \<longrightarrow> v = []"
  shows "run env ctx w =
           (Throws (ServerlessError MULTIPLE_TEMPLATE_OPTIONS_MESSAGE
                      ''MULTIPLE_TEMPLATE_OPTIONS_PROVIDED''), ctx, w)
         \<and> \<not> truthy (opt (options ctx) ''template-path'')
         \<and> \<not> truthy (opt (options ctx) ''template-url'')
         \<and> \<not> truthy (opt (options ctx) ''template'')
         \<and> acquireTemplate env (options ctx) dir w0 = fromTemplateName env (options ctx) dir w0
         \<and> chooseProjectType env (options ctx) w0 =
             (if projectType_answer env = ''other''
              then (None, record_io (StdoutWrite OTHER_HINT) (record_io (Prompt ''projectType'') w0))
              else (Some (projectType_answer env), record_io (Prompt ''projectType'') w0))"
proof -
  from assms(1)
  have "1 < length (filter (\<lambda>key. key \<in> set templateOptions) (Object_keys (options ctx)))"
    using two_template_keys_counted [of "options ctx"] by (simp add: set_templateOptions)
  then have thrown: "run env ctx w =
           (Throws (ServerlessError MULTIPLE_TEMPLATE_OPTIONS_MESSAGE
                      ''MULTIPLE_TEMPLATE_OPTIONS_PROVIDED''), ctx, w)"
    by (simp add: run_def)
  have falsy: "truthy_value (opt (options ctx) k) = None"
    if "k \<in> {''template-path'', ''template'', ''template-url''}" for k
  proof (cases "opt (options ctx) k")
    case None
    then show ?thesis by simp
  next
    case (Some v)
    then have "(k, v) \<in> set (options ctx)"
      by (simp add: opt_def map_of_SomeD)
    with assms(2) that have "v = []" by blast
    with Some show ?thesis by simp
  qed
  have not_truthy: "\<not> truthy v" if "truthy_value v = None" for v
    using that by (cases v) (auto split: if_splits)
  have p: "truthy_value (opt (options ctx) ''template-path'') = None"
    and u: "truthy_value (opt (options ctx) ''template-url'') = None"
    and t: "truthy_value (opt (options ctx) ''template'') = None"
    using falsy by simp_all
  have "acquireTemplate env (options ctx) dir w0 = fromTemplateName env (options ctx) dir w0"
    by (simp add: acquireTemplate_def p u)
  moreover have "chooseProjectType env (options ctx) w0 =
             (if projectType_answer env = ''other''
              then (None, record_io (StdoutWrite OTHER_HINT) (record_io (Prompt ''projectType'') w0))
              else (Some (projectType_answer env), record_io (Prompt ''projectType'') w0))"
    by (simp add: chooseProjectType_def t projectTypeChoice_def)
  ultimately show ?thesis
    using thrown not_truthy [OF p] not_truthy [OF u] not_truthy [OF t] by simp
qed

theorem run_counts_keys_not_values_witness:
  "run demo_env (demo_context two_empty_sources) empty_world =
     (Throws (ServerlessError MULTIPLE_TEMPLATE_OPTIONS_MESSAGE
                ''MULTIPLE_TEMPLATE_OPTIONS_PROVIDED''),
      demo_context two_empty_sources, empty_world)
   \<and> acquireTemplate demo_env (options (demo_context two_empty_sources)) ''/work'' empty_world
       = fromTemplateName demo_env (options (demo_context two_empty_sources)) ''/work'' empty_world"
proof -
  have present: "2 \<le> card ({''template-path'', ''template'', ''template-url''}
                   \<inter> set (Object_keys (options (demo_context two_empty_sources))))"
    by (simp add: demo_context_def two_empty_sources_def Object_keys_def)
  have empty: "\<forall>(k, v) \<in> set (options (demo_context two_empty_sources)).
           k \<in> {''template-path'', ''template'', ''template-url''} \<longrightarrow> v = []"
    by (simp add: demo_context_def two_empty_sources_def)
  from run_counts_keys_not_values [OF present empty, of demo_env empty_world "''/work''" empty_world]
  show ?thesis by simp
qed

subsection \<open>Picking \<^verbatim>\<open>other\<close>\<close>

text \<open>
  C9. When none of the four options is given, the user confirms and then picks \<^verbatim>\<open>other\<close>,
  \<^verbatim>\<open>run\<close> returns without an error. The context is returned as it was given, the files are
  unchanged, and the only interactions are the two prompts and the hint written to the
  standard output: no file-system call and no collaborator call is made.
\<close>

theorem run_other_is_no_op:
  assumes "\<forall>k \<in> {''name'', ''template-path'', ''template'', ''template-url''}.
             opt (options ctx) k = None"
    and "shouldCreateNewProject_answer env = ''Yes''"
    and "projectType_answer env = ''other''"
  shows "run env ctx w =
           (Returns (), ctx,
            w\<lparr>io_log := io_log w @ [Prompt ''shouldCreateNewProject'', Prompt ''projectType'',
                                    StdoutWrite OTHER_HINT]\<rparr>)"
proof -
  from assms(1)
  have "length (filter (\<lambda>key. key \<in> set templateOptions) (Object_keys (options ctx))) = 0"
    using no_template_keys_counted [of "options ctx"] by (simp add: templateOptions_def)
  moreover from assms(1) have "opt (options ctx) ''name'' = None"
    "opt (options ctx) ''template-path'' = None" "opt (options ctx) ''template'' = None"
    "opt (options ctx) ''template-url'' = None"
    by simp_all
  ultimately show ?thesis
    using assms(2,3)
    by (simp add: run_def confirmNewProject_def acquireTemplate_def fromTemplateName_def
        chooseProjectType_def projectTypeChoice_def record_io_def)
qed

theorem run_other_is_no_op_witness:
  "run picks_other (demo_context []) empty_world =
     (Returns (), demo_context [],
      \<lparr>files = {}, io_log = [Prompt ''shouldCreateNewProject'', Prompt ''projectType'',
                             StdoutWrite OTHER_HINT]\<rparr>)"
proof -
  have none: "\<forall>k \<in> {''name'', ''template-path'', ''template'', ''template-url''}.
             opt (options (demo_context [])) k = None"
    by (simp add: demo_context_def opt_def)
  have yes: "shouldCreateNewProject_answer picks_other = ''Yes''"
    and other: "projectType_answer picks_other = ''other''"
    by (simp_all add: picks_other_def demo_env_def)
  from run_other_is_no_op [OF none yes other, of empty_world]
  show ?thesis by (simp add: empty_world_def)
qed

subsection \<open>Valid names and trimming\<close>

lemma valid_name_length: "isValidServiceName s \<Longrightarrow> length s \<le> 101"
  by (auto simp: isValidServiceName_def split: list.splits)

lemma valid_name_first: "isValidServiceName s \<Longrightarrow> s \<noteq> [] \<and> is_alpha (hd s)"
  by (auto simp: isValidServiceName_def split: list.splits)

lemma is_alpha_alnum_hyphen: "is_alpha c \<Longrightarrow> is_alnum_hyphen c"
  by (auto simp: is_alpha_def is_alnum_hyphen_def Let_def)

lemma valid_name_last: "isValidServiceName s \<Longrightarrow> is_alnum_hyphen (last s)"
  by (auto simp: isValidServiceName_def list_all_iff is_alpha_alnum_hyphen split: list.splits)

lemma white_space_first: "\<forall>w \<in> set white_space. \<not> is_alpha (hd w)"
  by (simp add: white_space_def is_alpha_def)

lemma white_space_last: "\<forall>w \<in> set (map rev white_space). \<not> is_alnum_hyphen (hd w)"
  by (simp add: white_space_def is_alnum_hyphen_def)

lemma strip_leading_none:
  assumes "s \<noteq> []" and "\<forall>w \<in> set ws. hd w \<noteq> hd s"
  shows "strip_leading ws s = s"
proof -
  have "find (\<lambda>w. w \<noteq> [] \<and> take (length w) s = w) ws = None"
  proof -
    have "\<not> (w \<noteq> [] \<and> take (length w) s = w)" if "w \<in> set ws" for w
    proof
      assume a: "w \<noteq> [] \<and> take (length w) s = w"
      then have "hd (take (length w) s) = hd w" by simp
      with a assms(1) have "hd s = hd w" by (cases s; cases w) auto
      with assms(2) that show False by auto
    qed
    then show ?thesis by (auto simp: find_None_iff)
  qed
  then show ?thesis by (subst strip_leading.simps) simp
qed

lemma strip_leading_Nil: "strip_leading ws [] = []"
proof -
  have "find (\<lambda>w. w \<noteq> [] \<and> take (length w) [] = w) ws = None"
    by (auto simp: find_None_iff)
  then show ?thesis by (subst strip_leading.simps) simp
qed

lemma trim_Nil: "trim [] = []"
  by (simp add: trim_def trimStart_def trimEnd_def strip_leading_Nil del: strip_leading.simps)

lemma valid_name_trim:
  assumes "isValidServiceName s"
  shows "trim s = s"
proof -
  from assms have ne: "s \<noteq> []" and first: "is_alpha (hd s)"
    using valid_name_first by auto
  from assms have last: "is_alnum_hyphen (last s)" by (rule valid_name_last)
  have "\<forall>w \<in> set white_space. hd w \<noteq> hd s"
    using white_space_first first by auto
  with ne have start: "trimStart s = s"
    unfolding trimStart_def by (rule strip_leading_none)
  have "hd (rev s) = last s" using ne by (simp add: hd_rev)
  then have "\<forall>w \<in> set (map rev white_space). hd w \<noteq> hd (rev s)"
    using white_space_last last by auto
  moreover have "rev s \<noteq> []" using ne by simp
  ultimately have "strip_leading (map rev white_space) (rev s) = rev s"
    by (intro strip_leading_none)
  then have "trimEnd s = s" by (simp add: trimEnd_def)
  with start show ?thesis by (simp add: trim_def)
qed


subsection \<open>The project-name prompt\<close>

lemma projectName_validate_files:
  "projectName_validate env dir line w = (r, w1) \<Longrightarrow> files w1 = files w"
  by (auto simp: projectName_validate_def fsp_access_def record_io_def Let_def
      split: if_splits bool.splits)

lemma projectName_validate_Accepted:
  "projectName_validate env dir line w = (Accepted, w1) \<Longrightarrow>
     isValidServiceName (trim line) \<and> path_join env dir (trim line) \<notin> files w"
  by (auto simp: projectName_validate_def fsp_access_def Let_def split: if_splits bool.splits)

lemma inquirer_input_accepted:
  "inquirer_input dflt (projectName_validate env dir) lines w = (Some answer, w') \<Longrightarrow>
     (answer \<in> set lines \<or> dflt = Some answer)
     \<and> isValidServiceName (trim answer)
     \<and> path_join env dir (trim answer) \<notin> files w
     \<and> files w' = files w"
proof (induction lines arbitrary: w)
  case Nil
  then show ?case by simp
next
  case (Cons line lines)
  let ?a = "if line = [] then (case dflt of None \<Rightarrow> [] | Some d \<Rightarrow> d) else line"
  obtain r w1 where v: "projectName_validate env dir ?a w = (r, w1)"
    by (cases "projectName_validate env dir ?a w")
  then have files1: "files w1 = files w" by (rule projectName_validate_files)
  show ?case
  proof (cases r)
    case Accepted
    with Cons.prems v have eq: "answer = ?a" and "w' = w1"
      by (simp_all add: Let_def)
    from v Accepted have ok: "isValidServiceName (trim ?a) \<and> path_join env dir (trim ?a) \<notin> files w"
      using projectName_validate_Accepted by blast
    with trim_Nil ok have "?a \<noteq> []"
      by (auto simp: isValidServiceName_def)
    then have "?a \<in> set (line # lines) \<or> dflt = Some ?a"
      by (auto split: option.splits if_splits)
    with eq ok files1 \<open>w' = w1\<close> show ?thesis by simp
  next
    case (Rejected msg)
    with Cons.prems v
    have "inquirer_input dflt (projectName_validate env dir) lines w1 = (Some answer, w')"
      by (simp add: Let_def)
    from Cons.IH [OF this] files1 show ?thesis by auto
  qed
qed

lemma projectNameInput_Returns:
  assumes "projectNameInput env dir projectType w = (Returns name, w')"
  shows "\<exists>answer. name = trim answer
           \<and> (answer \<in> set (projectName_lines env)
               \<or> (\<exists>t. projectType = Some t \<and> answer = t @ ''-project''))
           \<and> isValidServiceName name
           \<and> path_join env dir name \<notin> files w"
proof -
  let ?dflt = "case projectType of None \<Rightarrow> None
               | Some t \<Rightarrow> if t \<noteq> [] then Some (t @ ''-project'') else None"
  from assms obtain answer where
    a: "inquirer_input ?dflt (projectName_validate env dir) (projectName_lines env)
          (record_io (Prompt ''projectName'') w) = (Some answer, w')"
    and n: "name = trim answer"
    by (auto simp: projectNameInput_def split: prod.splits option.splits)
  from inquirer_input_accepted [OF a]
  have "answer \<in> set (projectName_lines env) \<or> ?dflt = Some answer"
    and "isValidServiceName (trim answer)"
    and "path_join env dir (trim answer) \<notin> files w"
    by (simp_all add: record_io_def)
  moreover have "\<exists>t. projectType = Some t \<and> answer = t @ ''-project''"
    if "?dflt = Some answer"
    using that by (auto split: option.splits if_splits)
  ultimately show ?thesis using n by blast
qed

subsection \<open>An explicit project name\<close>

lemma explicit_name:
  assumes "opt opts ''name'' = Some name" and "name \<noteq> []"
  shows "resolveProjectNameInput env opts dir projectType w =
           (if \<not> isValidServiceName name then
              (Throws (ServerlessError INVALID_PROJECT_NAME_MESSAGE ''INVALID_PROJECT_NAME''), w)
            else if path_join env dir name \<in> files w then
              (Throws (ServerlessError (''Path '' @ name @ '' is already taken'')
                         ''TARGET_FOLDER_ALREADY_EXISTS''),
               record_io (FsAccess (path_join env dir name)) w)
            else (Returns name, record_io (FsAccess (path_join env dir name)) w))"
  using assms by (simp add: resolveProjectNameInput_def fsp_access_def)

lemma no_explicit_name:
  assumes "\<not> truthy (opt opts ''name'')"
  shows "resolveProjectNameInput env opts dir projectType w
           = projectNameInput env dir projectType w"
  using assms by (cases "opt opts ''name''") (simp_all add: resolveProjectNameInput_def)

lemma resolveProjectNameInput_Returns:
  assumes "resolveProjectNameInput env opts dir projectType w = (Returns name, w')"
  shows "isValidServiceName name \<and> path_join env dir name \<notin> files w"
proof (cases "truthy (opt opts ''name'')")
  case True
  then obtain given where g: "opt opts ''name'' = Some given" "given \<noteq> []"
    by (cases "opt opts ''name''") auto
  from assms show ?thesis
    unfolding explicit_name [OF g] by (auto split: if_splits)
next
  case False
  with assms have "projectNameInput env dir projectType w = (Returns name, w')"
    by (simp add: no_explicit_name)
  from projectNameInput_Returns [OF this] show ?thesis by blast
qed

text \<open>
  C5, amended. For a non-empty project name given by the \<^verbatim>\<open>name\<close> option, the naming step
  throws \<^verbatim>\<open>INVALID_PROJECT_NAME\<close>, before any I/O, when the name does not match the pattern
  (as \<^verbatim>\<open>1abc\<close>, \<^verbatim>\<open>abc_def\<close> and every string of 130 characters do not); it throws
  \<^verbatim>\<open>TARGET_FOLDER_ALREADY_EXISTS\<close> with the message \<^verbatim>\<open>Path <name> is already taken\<close> when
  the name matches and the path of that name under the working directory exists; and it
  returns the name otherwise. An empty name is not rejected: line 76 tests the truthiness
  of the option, so the empty string is treated as no name and the prompt is asked.
\<close>

theorem explicit_project_name:
  "(opt opts ''name'' = Some name \<and> name \<noteq> [] \<longrightarrow>
      resolveProjectNameInput env opts dir projectType w =
        (if \<not> isValidServiceName name then
           (Throws (ServerlessError INVALID_PROJECT_NAME_MESSAGE ''INVALID_PROJECT_NAME''), w)
         else if path_join env dir name \<in> files w then
           (Throws (ServerlessError (''Path '' @ name @ '' is already taken'')
                      ''TARGET_FOLDER_ALREADY_EXISTS''),
            record_io (FsAccess (path_join env dir name)) w)
         else (Returns name, record_io (FsAccess (path_join env dir name)) w)))
   \<and> (opt opts ''name'' = Some [] \<longrightarrow>
        resolveProjectNameInput env opts dir projectType w
          = projectNameInput env dir projectType w)
   \<and> \<not> isValidServiceName ''1abc''
   \<and> \<not> isValidServiceName ''abc_def''
   \<and> (\<forall>s. length s = 130 \<longrightarrow> \<not> isValidServiceName s)"
proof -
  have "\<not> isValidServiceName s" if "length s = 130" for s
    using valid_name_length [of s] that by auto
  moreover have "\<not> isValidServiceName ''1abc''" "\<not> isValidServiceName ''abc_def''"
    by (simp_all add: isValidServiceName_def is_alpha_def is_alnum_hyphen_def)
  ultimately show ?thesis
    using explicit_name [of opts name env dir projectType w]
      no_explicit_name [of opts env dir projectType w]
    by simp
qed


lemma trim_my_service: "trim '' my-service '' = ''my-service''"
  by code_simp

lemma valid_my_service: "isValidServiceName ''my-service''"
  by (simp add: isValidServiceName_def is_alpha_def is_alnum_hyphen_def)

lemma demo_prompt:
  "projectNameInput demo_env ''/work'' projectType empty_world
     = (Returns ''my-service'',
        \<lparr>files = {}, io_log = [Prompt ''projectName'', FsAccess ''/work/my-service'']\<rparr>)"
  by (simp add: projectNameInput_def projectName_validate_def demo_env_def empty_world_def
      record_io_def fsp_access_def trim_my_service valid_my_service)

text \<open>
  The claim as stated fails at the empty name: it does not match the pattern, and the
  naming step returns the name typed at the prompt instead of throwing.
\<close>

theorem empty_name_counterexample:
  "opt [(''name'', [])] ''name'' = Some []
   \<and> \<not> isValidServiceName []
   \<and> resolveProjectNameInput demo_env [(''name'', [])] ''/work'' None empty_world
       = (Returns ''my-service'',
          \<lparr>files = {}, io_log = [Prompt ''projectName'', FsAccess ''/work/my-service'']\<rparr>)"
  by (simp add: opt_def isValidServiceName_def resolveProjectNameInput_def demo_prompt)


theorem explicit_project_name_witness:
  "resolveProjectNameInput demo_env [(''name'', ''1abc'')] ''/work'' None empty_world
     = (Throws (ServerlessError INVALID_PROJECT_NAME_MESSAGE ''INVALID_PROJECT_NAME''), empty_world)
   \<and> resolveProjectNameInput demo_env [(''name'', ''demo1'')] ''/work'' None
        (empty_world\<lparr>files := {''/work/demo1''}\<rparr>)
     = (Throws (ServerlessError ''Path demo1 is already taken'' ''TARGET_FOLDER_ALREADY_EXISTS''),
        \<lparr>files = {''/work/demo1''}, io_log = [FsAccess ''/work/demo1'']\<rparr>)
   \<and> resolveProjectNameInput demo_env [(''name'', ''demo1'')] ''/work'' None empty_world
     = (Returns ''demo1'', \<lparr>files = {}, io_log = [FsAccess ''/work/demo1'']\<rparr>)
   \<and> resolveProjectNameInput demo_env [(''name'', [])] ''/work'' None empty_world
     = projectNameInput demo_env ''/work'' None empty_world
   \<and> \<not> isValidServiceName (replicate 130 CHR ''a'')"
proof -
  have valid: "isValidServiceName ''demo1''"
    by (simp add: isValidServiceName_def is_alpha_def is_alnum_hyphen_def)
  have "resolveProjectNameInput demo_env [(''name'', ''1abc'')] ''/work'' None empty_world
     = (Throws (ServerlessError INVALID_PROJECT_NAME_MESSAGE ''INVALID_PROJECT_NAME''), empty_world)"
    using explicit_project_name [of "[(''name'', ''1abc'')]" "''1abc''" demo_env "''/work''" None
        empty_world]
    by (simp add: opt_def)
  moreover
  have "resolveProjectNameInput demo_env [(''name'', ''demo1'')] ''/work'' None
        (empty_world\<lparr>files := {''/work/demo1''}\<rparr>)
     = (Throws (ServerlessError ''Path demo1 is already taken'' ''TARGET_FOLDER_ALREADY_EXISTS''),
        \<lparr>files = {''/work/demo1''}, io_log = [FsAccess ''/work/demo1'']\<rparr>)"
    using explicit_project_name [of "[(''name'', ''demo1'')]" "''demo1''" demo_env "''/work''" None
        "empty_world\<lparr>files := {''/work/demo1''}\<rparr>"] valid
    by (simp add: opt_def demo_env_def empty_world_def record_io_def)
  moreover
  have "resolveProjectNameInput demo_env [(''name'', ''demo1'')] ''/work'' None empty_world
     = (Returns ''demo1'', \<lparr>files = {}, io_log = [FsAccess ''/work/demo1'']\<rparr>)"
    using explicit_project_name [of "[(''name'', ''demo1'')]" "''demo1''" demo_env "''/work''" None
        empty_world] valid
    by (simp add: opt_def demo_env_def empty_world_def record_io_def)
  moreover
  have "resolveProjectNameInput demo_env [(''name'', [])] ''/work'' None empty_world
     = projectNameInput demo_env ''/work'' None empty_world"
    using explicit_project_name [of "[(''name'', [])]" "[]" demo_env "''/work''" None empty_world]
    by (simp add: opt_def)
  moreover
  have "\<forall>s::string. length s = 130 \<longrightarrow> \<not> isValidServiceName s"
    using explicit_project_name [of "[]" "[]" demo_env "[]" None empty_world] by blast
  then have "\<not> isValidServiceName (replicate 130 CHR ''a'')" by simp
  ultimately show ?thesis by blast
qed


lemma acquireTemplate_Returns:
  assumes "acquireTemplate env opts dir w = (Returns (Some (projectDir, projectName)), w')"
  shows "projectDir = path_join env dir projectName \<and> isValidServiceName projectName"
proof -
  have name: "isValidServiceName n"
    if "resolveProjectNameInput env opts dir pt v = (Returns n, v')" for pt v n v'
    using resolveProjectNameInput_Returns [OF that] by simp
  show ?thesis
  proof (cases "truthy_value (opt opts ''template-path'')")
    case (Some templatePath)
    with assms have "fromTemplatePath env opts dir templatePath w
                       = (Returns (Some (projectDir, projectName)), w')"
      by (simp add: acquireTemplate_def)
    then show ?thesis
      by (auto simp: fromTemplatePath_def Let_def dest: name
          split: prod.splits outcome.splits option.splits)
  next
    case None
    note no_path = None
    show ?thesis
    proof (cases "truthy_value (opt opts ''template-url'')")
      case (Some templateUrl)
      with assms no_path have "fromTemplateUrl env opts dir templateUrl w
                         = (Returns (Some (projectDir, projectName)), w')"
        by (simp add: acquireTemplate_def)
      then show ?thesis
        by (auto simp: fromTemplateUrl_def Let_def dest: name
            split: prod.splits outcome.splits option.splits)
    next
      case None
      with assms no_path have "fromTemplateName env opts dir w
                         = (Returns (Some (projectDir, projectName)), w')"
        by (simp add: acquireTemplate_def)
      then show ?thesis
        by (auto simp: fromTemplateName_def Let_def dest: name
            split: prod.splits outcome.splits option.splits)
    qed
  qed
qed

subsection \<open>Where names are trimmed\<close>

text \<open>
  The validator of the prompt accepts a typed line exactly when its trimmed form matches
  the pattern and is free; the line as typed is never tested.
\<close>

lemma projectName_validate_iff:
  "fst (projectName_validate env dir line w) = Accepted \<longleftrightarrow>
     isValidServiceName (trim line) \<and> path_join env dir (trim line) \<notin> files w"
  by (auto simp: projectName_validate_def fsp_access_def Let_def split: bool.splits)

lemma trim_demo1: "trim '' demo1 '' = ''demo1''"
  by code_simp

lemma valid_demo1: "isValidServiceName ''demo1''"
  by (simp add: isValidServiceName_def is_alpha_def is_alnum_hyphen_def)

text \<open>
  C6. The claim asks that every project name, given by the \<^verbatim>\<open>name\<close> option or entered at
  the prompt, be trimmed before it is validated, checked for collision and used. The prompt
  does so (lines 60 and 73); the explicit path does not (lines 76 to 96). With the option
  \<^verbatim>\<open>name\<close> set to \<^verbatim>\<open>demo1\<close> with a blank on each side, in a working directory where
  \<^verbatim>\<open>demo1\<close> is free, the naming step throws \<^verbatim>\<open>INVALID_PROJECT_NAME\<close> without looking at the
  file system, although the trimmed name matches the pattern; the same text typed at the
  prompt is trimmed, accepted and returned as \<^verbatim>\<open>demo1\<close>.
\<close>

theorem explicit_name_not_trimmed:
  "opt [(''name'', '' demo1 '')] ''name'' = Some '' demo1 ''
   \<and> trim '' demo1 '' = ''demo1''
   \<and> isValidServiceName ''demo1''
   \<and> path_join demo_env ''/work'' ''demo1'' \<notin> files empty_world
   \<and> resolveProjectNameInput demo_env [(''name'', '' demo1 '')] ''/work'' None empty_world
       = (Throws (ServerlessError INVALID_PROJECT_NAME_MESSAGE ''INVALID_PROJECT_NAME''),
          empty_world)
   \<and> resolveProjectNameInput types_padded_demo1 [] ''/work'' None empty_world
       = (Returns ''demo1'',
          \<lparr>files = {}, io_log = [Prompt ''projectName'', FsAccess ''/work/demo1'']\<rparr>)"
proof -
  have "\<not> isValidServiceName '' demo1 ''"
    by (simp add: isValidServiceName_def is_alpha_def)
  then have explicit:
    "resolveProjectNameInput demo_env [(''name'', '' demo1 '')] ''/work'' None empty_world
       = (Throws (ServerlessError INVALID_PROJECT_NAME_MESSAGE ''INVALID_PROJECT_NAME''),
          empty_world)"
    by (simp add: resolveProjectNameInput_def opt_def)
  have typed:
    "resolveProjectNameInput types_padded_demo1 [] ''/work'' None empty_world
       = (Returns ''demo1'',
          \<lparr>files = {}, io_log = [Prompt ''projectName'', FsAccess ''/work/demo1'']\<rparr>)"
    by (simp add: resolveProjectNameInput_def opt_def projectNameInput_def
        projectName_validate_def types_padded_demo1_def demo_env_def empty_world_def
        record_io_def fsp_access_def trim_demo1 valid_demo1)
  have "path_join demo_env ''/work'' ''demo1'' \<notin> files empty_world"
    by (simp add: empty_world_def)
  moreover have "opt [(''name'', '' demo1 '')] ''name'' = Some '' demo1 ''"
    by (simp add: opt_def)
  ultimately show ?thesis
    using explicit typed trim_demo1 valid_demo1 by simp
qed

subsection \<open>Download failures\<close>

lemma truthy_iff: "truthy v \<longleftrightarrow> truthy_value v \<noteq> None"
  by (cases v) auto

lemma run_url_download_failure:
  assumes "length (filter (\<lambda>key. key \<in> set templateOptions) (Object_keys (options ctx))) \<le> 1"
    and "truthy_value (opt (options ctx) ''template-path'') = None"
    and "truthy_value (opt (options ctx) ''template-url'') = Some templateUrl"
    and "resolveProjectNameInput env (options ctx) (workingDir_of env ctx) None w
           = (Returns projectName, w1)"
    and "downloadTemplateFromRepo env templateUrl None projectName (files w1) = (Some err, fs)"
  shows "\<exists>w'. run env ctx w = (Throws (catch_template_url err), ctx, w')"
proof -
  from assms(3) have "truthy (opt (options ctx) ''template-url'')"
    by (simp add: truthy_iff)
  then have "confirmNewProject env (options ctx) w = (True, w)"
    by (simp add: confirmNewProject_def)
  moreover
  have "acquireTemplate env (options ctx) (workingDir_of env ctx) w
          = fromTemplateUrl env (options ctx) (workingDir_of env ctx) templateUrl w"
    using assms(2,3) by (simp add: acquireTemplate_def)
  moreover
  have "\<exists>w'. fromTemplateUrl env (options ctx) (workingDir_of env ctx) templateUrl w
          = (Throws (catch_template_url err), w')"
    using assms(4,5) by (simp add: fromTemplateUrl_def call_def record_io_def)
  ultimately show ?thesis
    using assms(1) by (auto simp: run_def)
qed

lemma run_named_download_failure:
  assumes "length (filter (\<lambda>key. key \<in> set templateOptions) (Object_keys (options ctx))) \<le> 1"
    and "truthy_value (opt (options ctx) ''template-path'') = None"
    and "truthy_value (opt (options ctx) ''template-url'') = None"
    and "confirmNewProject env (options ctx) w = (True, w0)"
    and "chooseProjectType env (options ctx) w0 = (Some projectType, w1)"
    and "resolveProjectNameInput env (options ctx) (workingDir_of env ctx) (Some projectType) w1
           = (Returns projectName, w2)"
    and "downloadTemplateFromRepo env
           (''https://github.com/serverless/examples/tree/master/'' @ projectType)
           (Some projectType) projectName (files w2) = (Some err, fs)"
  shows "\<exists>w'. run env ctx w = (Throws (catch_template (options ctx) err), ctx, w')"
proof -
  have "acquireTemplate env (options ctx) (workingDir_of env ctx) w0
          = fromTemplateName env (options ctx) (workingDir_of env ctx) w0"
    using assms(2,3) by (simp add: acquireTemplate_def)
  moreover
  have "\<exists>w'. fromTemplateName env (options ctx) (workingDir_of env ctx) w0
          = (Throws (catch_template (options ctx) err), w')"
    using assms(5,6,7) by (simp add: fromTemplateName_def call_def record_io_def)
  ultimately show ?thesis
    using assms(1,4) by (auto simp: run_def)
qed


lemma demo1_resolved:
  assumes "opt opts ''name'' = Some ''demo1''" and "path_join env dir ''demo1'' \<notin> files w"
  shows "resolveProjectNameInput env opts dir projectType w
           = (Returns ''demo1'', record_io (FsAccess (path_join env dir ''demo1'')) w)"
  using assms valid_demo1 by (simp add: explicit_name)

text \<open>
  C1, amended. When the download collaborator fails, \<^verbatim>\<open>run\<close> throws the failure unchanged
  if it is not a \<^verbatim>\<open>ServerlessError\<close>, and wraps it when it is one: on the remote-URL path as
  a structured error tagged \<^verbatim>\<open>INVALID_TEMPLATE_URL\<close>, on the named-template path as one
  tagged \<^verbatim>\<open>TEMPLATE_DOWNLOAD_FAILED\<close>, in both cases with the underlying message at the end
  of the new one. (On the named-template path the failure with code \<^verbatim>\<open>ENOENT\<close> for an
  explicitly given template is handled first; see C2.)
\<close>

theorem download_failure_handling:
  assumes "length (filter (\<lambda>key. key \<in> {''template-path'', ''template'', ''template-url''})
                     (Object_keys (options ctx))) \<le> 1"
    and "truthy_value (opt (options ctx) ''template-path'') = None"
  shows
    "(truthy_value (opt (options ctx) ''template-url'') = Some templateUrl
      \<and> resolveProjectNameInput env (options ctx) (workingDir_of env ctx) None w
          = (Returns projectName, w1)
      \<and> downloadTemplateFromRepo env templateUrl None projectName (files w1) = (Some err, fs)
      \<longrightarrow> fst (run env ctx w) =
            Throws (if constructor_name err \<noteq> ''ServerlessError'' then err
                    else ServerlessError
                           (''Could not download template from provided url. Ensure that the ''
                            @ ''template provided with '' @ DQ @ ''--template-url'' @ DQ
                            @ '' exists: '' @ message err)
                           ''INVALID_TEMPLATE_URL''))
     \<and> (truthy_value (opt (options ctx) ''template-url'') = None
        \<and> confirmNewProject env (options ctx) w = (True, v0)
        \<and> chooseProjectType env (options ctx) v0 = (Some projectType, v1)
        \<and> resolveProjectNameInput env (options ctx) (workingDir_of env ctx) (Some projectType) v1
            = (Returns name, v2)
        \<and> downloadTemplateFromRepo env
             (''https://github.com/serverless/examples/tree/master/'' @ projectType)
             (Some projectType) name (files v2) = (Some err, fs)
        \<and> \<not> (code err = Some ''ENOENT'' \<and> truthy (opt (options ctx) ''template''))
        \<longrightarrow> fst (run env ctx w) =
              Throws (if constructor_name err \<noteq> ''ServerlessError'' then err
                      else ServerlessError
                             (''Could not download template. Ensure that you are using the ''
                              @ ''latest version of Serverless Framework: '' @ message err)
                             ''TEMPLATE_DOWNLOAD_FAILED''))"
proof (intro conjI impI)
  from assms(1)
  have guard: "length (filter (\<lambda>key. key \<in> set templateOptions) (Object_keys (options ctx))) \<le> 1"
    by (simp add: set_templateOptions)
  {
    assume "truthy_value (opt (options ctx) ''template-url'') = Some templateUrl
      \<and> resolveProjectNameInput env (options ctx) (workingDir_of env ctx) None w
          = (Returns projectName, w1)
      \<and> downloadTemplateFromRepo env templateUrl None projectName (files w1) = (Some err, fs)"
    then have "\<exists>w'. run env ctx w = (Throws (catch_template_url err), ctx, w')"
      using run_url_download_failure [OF guard assms(2)] by blast
    then show "fst (run env ctx w) =
            Throws (if constructor_name err \<noteq> ''ServerlessError'' then err
                    else ServerlessError
                           (''Could not download template from provided url. Ensure that the ''
                            @ ''template provided with '' @ DQ @ ''--template-url'' @ DQ
                            @ '' exists: '' @ message err)
                           ''INVALID_TEMPLATE_URL'')"
      by (auto simp: catch_template_url_def)
  }
  {
    assume a: "truthy_value (opt (options ctx) ''template-url'') = None
        \<and> confirmNewProject env (options ctx) w = (True, v0)
        \<and> chooseProjectType env (options ctx) v0 = (Some projectType, v1)
        \<and> resolveProjectNameInput env (options ctx) (workingDir_of env ctx) (Some projectType) v1
            = (Returns name, v2)
        \<and> downloadTemplateFromRepo env
             (''https://github.com/serverless/examples/tree/master/'' @ projectType)
             (Some projectType) name (files v2) = (Some err, fs)
        \<and> \<not> (code err = Some ''ENOENT'' \<and> truthy (opt (options ctx) ''template''))"
    then have "\<exists>w'. run env ctx w = (Throws (catch_template (options ctx) err), ctx, w')"
      using run_named_download_failure [OF guard assms(2)] by blast
    with a show "fst (run env ctx w) =
              Throws (if constructor_name err \<noteq> ''ServerlessError'' then err
                      else ServerlessError
                             (''Could not download template. Ensure that you are using the ''
                              @ ''latest version of Serverless Framework: '' @ message err)
                             ''TEMPLATE_DOWNLOAD_FAILED'')"
      by (auto simp: catch_template_def)
  }
qed

text \<open>
  C2. On the named-template path let the download fail with code \<^verbatim>\<open>ENOENT\<close>. If the
  \<^verbatim>\<open>template\<close> option is truthy, it is the template that was asked for and \<^verbatim>\<open>run\<close> throws
  the structured error tagged \<^verbatim>\<open>INVALID_TEMPLATE\<close>. Otherwise the template was picked at
  the prompt, and the error that \<^verbatim>\<open>run\<close> throws is the failure itself or its
  \<^verbatim>\<open>TEMPLATE_DOWNLOAD_FAILED\<close> wrapping, never one with code \<^verbatim>\<open>INVALID_TEMPLATE\<close>.
\<close>

theorem invalid_template_when_explicit:
  assumes "length (filter (\<lambda>key. key \<in> {''template-path'', ''template'', ''template-url''})
                     (Object_keys (options ctx))) \<le> 1"
    and "truthy_value (opt (options ctx) ''template-path'') = None"
    and "truthy_value (opt (options ctx) ''template-url'') = None"
    and "confirmNewProject env (options ctx) w = (True, w0)"
    and "chooseProjectType env (options ctx) w0 = (Some projectType, w1)"
    and "resolveProjectNameInput env (options ctx) (workingDir_of env ctx) (Some projectType) w1
           = (Returns projectName, w2)"
    and "downloadTemplateFromRepo env
           (''https://github.com/serverless/examples/tree/master/'' @ projectType)
           (Some projectType) projectName (files w2) = (Some err, fs)"
    and "code err = Some ''ENOENT''"
  shows
    "(truthy (opt (options ctx) ''template'') \<longrightarrow>
        opt (options ctx) ''template'' = Some projectType
        \<and> fst (run env ctx w) =
            Throws (ServerlessError
                      (''Could not find provided template. Ensure that the template provided ''
                       @ ''with '' @ DQ @ ''--template'' @ DQ @ '' exists.'')
                      ''INVALID_TEMPLATE''))
     \<and> (\<not> truthy (opt (options ctx) ''template'') \<longrightarrow>
          projectType = projectType_answer env
          \<and> w1 = record_io (Prompt ''projectType'') w0
          \<and> fst (run env ctx w) =
              Throws (if constructor_name err \<noteq> ''ServerlessError'' then err
                      else ServerlessError
                             (''Could not download template. Ensure that you are using the ''
                              @ ''latest version of Serverless Framework: '' @ message err)
                             ''TEMPLATE_DOWNLOAD_FAILED'')
          \<and> (\<forall>e. fst (run env ctx w) = Throws e \<longrightarrow> code e \<noteq> Some ''INVALID_TEMPLATE''))"
proof -
  from assms(1)
  have guard: "length (filter (\<lambda>key. key \<in> set templateOptions) (Object_keys (options ctx))) \<le> 1"
    by (simp add: set_templateOptions)
  from run_named_download_failure [OF guard assms(2-7)]
  have thrown: "fst (run env ctx w) = Throws (catch_template (options ctx) err)"
    by auto
  show ?thesis
  proof (cases "truthy (opt (options ctx) ''template'')")
    case True
    then obtain t where "opt (options ctx) ''template'' = Some t" "t \<noteq> []"
      by (cases "opt (options ctx) ''template''") auto
    with assms(5) have "opt (options ctx) ''template'' = Some projectType"
      by (simp add: chooseProjectType_def)
    with True thrown assms(8) show ?thesis
      by (simp add: catch_template_def)
  next
    case False
    then have "truthy_value (opt (options ctx) ''template'') = None"
      by (simp add: truthy_iff)
    with assms(5) have "projectType = projectType_answer env"
      and "w1 = record_io (Prompt ''projectType'') w0"
      by (auto simp: chooseProjectType_def projectTypeChoice_def split: if_splits)
    with False thrown assms(8) show ?thesis
      by (auto simp: catch_template_def ServerlessError_def)
  qed
qed


lemma download_fails_fields:
  "path_join (download_fails err) = (\<lambda>dir name. dir @ ''/'' @ name)"
  "downloadTemplateFromRepo (download_fails err) = (\<lambda>url tag name fs. (Some err, fs))"
  "projectType_answer (download_fails err) = ''aws-node''"
  "workingDir_of (download_fails err) (demo_context opts) = ''/work''"
  by (simp_all add: download_fails_def demo_env_def workingDir_of_def demo_context_def)

lemma url_options_facts:
  "length (filter (\<lambda>key. key \<in> {''template-path'', ''template'', ''template-url''})
             (Object_keys (options (demo_context url_options)))) \<le> 1"
  "truthy_value (opt (options (demo_context url_options)) ''template-path'') = None"
  "truthy_value (opt (options (demo_context url_options)) ''template-url'')
     = Some ''https://example.com/t''"
  "opt (options (demo_context url_options)) ''name'' = Some ''demo1''"
  by (simp_all add: demo_context_def url_options_def Object_keys_def opt_def)

lemma named_options_facts:
  "length (filter (\<lambda>key. key \<in> {''template-path'', ''template'', ''template-url''})
             (Object_keys (options (demo_context named_options)))) \<le> 1"
  "truthy_value (opt (options (demo_context named_options)) ''template-path'') = None"
  "truthy_value (opt (options (demo_context named_options)) ''template-url'') = None"
  "truthy_value (opt (options (demo_context named_options)) ''template'') = Some ''aws-node''"
  "opt (options (demo_context named_options)) ''template'' = Some ''aws-node''"
  "opt (options (demo_context named_options)) ''name'' = Some ''demo1''"
  by (simp_all add: demo_context_def named_options_def Object_keys_def opt_def)

lemma named_options_start:
  "confirmNewProject env (options (demo_context named_options)) w = (True, w)"
  "chooseProjectType env (options (demo_context named_options)) w = (Some ''aws-node'', w)"
  by (simp_all add: confirmNewProject_def chooseProjectType_def named_options_facts)

lemma demo1_free: "''/work/demo1'' \<notin> files empty_world"
  by (simp add: empty_world_def)

lemma url_options_name:
  "resolveProjectNameInput (download_fails err) (options (demo_context url_options))
     (workingDir_of (download_fails err) (demo_context url_options)) None empty_world
   = (Returns ''demo1'', record_io (FsAccess ''/work/demo1'') empty_world)"
  using demo1_resolved [OF url_options_facts(4), of "download_fails err" "''/work''" empty_world
      None] demo1_free
  by (simp add: download_fails_fields)

lemma named_options_name:
  "resolveProjectNameInput (download_fails err) (options (demo_context named_options))
     (workingDir_of (download_fails err) (demo_context named_options)) (Some ''aws-node'')
     empty_world
   = (Returns ''demo1'', record_io (FsAccess ''/work/demo1'') empty_world)"
  using demo1_resolved [OF named_options_facts(6), of "download_fails err" "''/work''"
      empty_world "Some ''aws-node''"] demo1_free
  by (simp add: download_fails_fields)

lemma url_download_fails:
  "downloadTemplateFromRepo (download_fails err) ''https://example.com/t'' None ''demo1''
     (files (record_io (FsAccess ''/work/demo1'') empty_world))
   = (Some err, files (record_io (FsAccess ''/work/demo1'') empty_world))"
  by (simp add: download_fails_fields)

lemma named_download_fails:
  "downloadTemplateFromRepo (download_fails err)
     (''https://github.com/serverless/examples/tree/master/'' @ ''aws-node'')
     (Some ''aws-node'') ''demo1'' (files (record_io (FsAccess ''/work/demo1'') empty_world))
   = (Some err, files (record_io (FsAccess ''/work/demo1'') empty_world))"
  by (simp add: download_fails_fields)

theorem download_failure_handling_witness:
  "fst (run (download_fails structured_error) (demo_context url_options) empty_world)
     = Throws (ServerlessError
                 (''Could not download template from provided url. Ensure that the ''
                  @ ''template provided with '' @ DQ @ ''--template-url'' @ DQ
                  @ '' exists: Repository not reachable'')
                 ''INVALID_TEMPLATE_URL'')
   \<and> fst (run (download_fails type_error) (demo_context url_options) empty_world)
     = Throws type_error
   \<and> fst (run (download_fails structured_error) (demo_context named_options) empty_world)
     = Throws (ServerlessError
                 (''Could not download template. Ensure that you are using the ''
                  @ ''latest version of Serverless Framework: Repository not reachable'')
                 ''TEMPLATE_DOWNLOAD_FAILED'')
   \<and> fst (run (download_fails type_error) (demo_context named_options) empty_world)
     = Throws type_error"
proof -
  have not_found: "code structured_error \<noteq> Some ''ENOENT''" "code type_error \<noteq> Some ''ENOENT''"
    by (simp_all add: structured_error_def type_error_def ServerlessError_def)
  note url = download_failure_handling [OF url_options_facts(1,2), THEN conjunct1, rule_format,
      OF conjI [OF url_options_facts(3) conjI [OF url_options_name url_download_fails]]]
  note named = download_failure_handling [OF named_options_facts(1,2), THEN conjunct2, rule_format,
      OF conjI [OF named_options_facts(3) conjI [OF named_options_start(1)
        conjI [OF named_options_start(2) conjI [OF named_options_name
          conjI [OF named_download_fails]]]]]]
  from url [of structured_error] url [of type_error]
    named [of structured_error] named [of type_error] not_found
  show ?thesis
    by (simp add: structured_error_def type_error_def ServerlessError_def)
qed


text \<open>
  The claim as stated has the two cases the other way round. On the remote-URL path a
  \<^verbatim>\<open>TypeError\<close> of the downloader is thrown unchanged, not wrapped, and a
  \<^verbatim>\<open>ServerlessError\<close> of the downloader is not thrown unchanged.
\<close>

theorem download_failure_counterexample:
  "constructor_name type_error \<noteq> ''ServerlessError''
   \<and> fst (run (download_fails type_error) (demo_context url_options) empty_world)
       = Throws type_error
   \<and> constructor_name structured_error = ''ServerlessError''
   \<and> fst (run (download_fails structured_error) (demo_context url_options) empty_world)
       \<noteq> Throws structured_error"
proof -
  have guard: "length (filter (\<lambda>key. key \<in> set templateOptions)
                 (Object_keys (options (demo_context url_options)))) \<le> 1"
    using url_options_facts(1) by (simp add: set_templateOptions)
  have "\<exists>w'. run (download_fails err) (demo_context url_options) empty_world
          = (Throws (catch_template_url err), demo_context url_options, w')" for err
    using run_url_download_failure [OF guard url_options_facts(2,3) url_options_name
        url_download_fails] .
  then have "fst (run (download_fails err) (demo_context url_options) empty_world)
          = Throws (catch_template_url err)" for err
    by (metis fst_conv)
  then show ?thesis
    by (simp add: catch_template_url_def type_error_def structured_error_def ServerlessError_def)
qed

theorem invalid_template_when_explicit_witness:
  "fst (run (download_fails enoent_error) (demo_context named_options) empty_world)
     = Throws (ServerlessError
                 (''Could not find provided template. Ensure that the template provided ''
                  @ ''with '' @ DQ @ ''--template'' @ DQ @ '' exists.'')
                 ''INVALID_TEMPLATE'')
   \<and> fst (run (download_fails enoent_error) (demo_context [(''name'', ''demo1'')]) empty_world)
     = Throws enoent_error"
proof -
  have enoent: "code enoent_error = Some ''ENOENT''"
    by (simp add: enoent_error_def)
  have explicit: "fst (run (download_fails enoent_error) (demo_context named_options) empty_world)
     = Throws (ServerlessError
                 (''Could not find provided template. Ensure that the template provided ''
                  @ ''with '' @ DQ @ ''--template'' @ DQ @ '' exists.'')
                 ''INVALID_TEMPLATE'')"
    using invalid_template_when_explicit [OF named_options_facts(1,2,3)
      named_options_start named_options_name named_download_fails enoent]
    by (simp add: named_options_facts)
  let ?ctx = "demo_context [(''name'', ''demo1'')]"
  let ?w1 = "record_io (Prompt ''projectType'') empty_world"
  let ?w2 = "record_io (FsAccess ''/work/demo1'') ?w1"
  have guard: "length (filter (\<lambda>key. key \<in> {''template-path'', ''template'', ''template-url''})
             (Object_keys (options ?ctx))) \<le> 1"
    and no_path: "truthy_value (opt (options ?ctx) ''template-path'') = None"
    and no_url: "truthy_value (opt (options ?ctx) ''template-url'') = None"
    and no_template: "\<not> truthy (opt (options ?ctx) ''template'')"
    and name: "opt (options ?ctx) ''name'' = Some ''demo1''"
    by (simp_all add: demo_context_def Object_keys_def opt_def)
  have confirm: "confirmNewProject (download_fails enoent_error) (options ?ctx) empty_world
                   = (True, empty_world)"
    by (simp add: confirmNewProject_def demo_context_def opt_def)
  have choose: "chooseProjectType (download_fails enoent_error) (options ?ctx) empty_world
                  = (Some ''aws-node'', ?w1)"
    by (simp add: chooseProjectType_def projectTypeChoice_def demo_context_def opt_def
        download_fails_fields)
  have "''/work/demo1'' \<notin> files ?w1"
    by (simp add: empty_world_def record_io_def)
  then have resolved: "resolveProjectNameInput (download_fails enoent_error) (options ?ctx)
       (workingDir_of (download_fails enoent_error) ?ctx) (Some ''aws-node'') ?w1
     = (Returns ''demo1'', ?w2)"
    using demo1_resolved [OF name, of "download_fails enoent_error" "''/work''" ?w1
        "Some ''aws-node''"]
    by (simp add: download_fails_fields)
  have fails: "downloadTemplateFromRepo (download_fails enoent_error)
     (''https://github.com/serverless/examples/tree/master/'' @ ''aws-node'')
     (Some ''aws-node'') ''demo1'' (files ?w2) = (Some enoent_error, files ?w2)"
    by (simp add: download_fails_fields)
  have "fst (run (download_fails enoent_error) ?ctx empty_world) = Throws enoent_error"
    using invalid_template_when_explicit [OF guard no_path no_url confirm choose resolved
      fails enoent] no_template
    by (simp add: enoent_error_def)
  with explicit show ?thesis by simp
qed

subsection \<open>Dependency installation\<close>

lemma run_after_acquire:
  assumes "length (filter (\<lambda>key. key \<in> set templateOptions) (Object_keys (options ctx))) \<le> 1"
    and "confirmNewProject env (options ctx) w = (True, w1)"
    and "acquireTemplate env (options ctx) (workingDir_of env ctx) w1
           = (Returns (Some (projectDir, projectName)), w2)"
  shows "run env ctx w =
           (case installDependencies env projectDir projectName w2 of
              (Some e, w3) \<Rightarrow> (Throws e, ctx, w3)
            | (None, w3) \<Rightarrow> finalize env ctx projectDir projectName w3)"
  using assms by (simp add: run_def)

lemma installDependencies_no_manifest:
  assumes "path_join env projectDir ''package.json'' \<notin> files w"
  shows "installDependencies env projectDir projectName w
           = (None, record_io (FsAccess (path_join env projectDir ''package.json'')) w)"
  using assms by (simp add: installDependencies_def fsp_access_def)

lemma installDependencies_manifest:
  assumes "path_join env projectDir ''package.json'' \<in> files w"
    and "npmCommandDeferred env = Inr npmCommand"
    and "spawn env npmCommand [''install''] projectDir (files w) = (result, fs)"
  shows "installDependencies env projectDir projectName w =
           (let w3 = (record_io (Spawn npmCommand [''install''] projectDir)
                        (record_io (StdoutWrite (INSTALLING_MESSAGE projectName))
                           (record_io (FsAccess (path_join env projectDir ''package.json'')) w)))
                     \<lparr>files := fs\<rparr>
            in case result of
                 None \<Rightarrow> (None, w3)
               | Some err \<Rightarrow>
                   if code err = Some ''ENOENT'' then
                     (None, record_io (StdoutWrite (LF @ chalk_yellow env NPM_MISSING_WARNING @ LF)) w3)
                   else (Some (ServerlessError (''Cannot install dependencies: '' @ message err)
                                 ''DEPENDENCIES_INSTALL_FAILED''), w3))"
  using assms
  by (simp add: installDependencies_def fsp_access_def call_def record_io_def Let_def
      split: option.splits)

lemma acquire_aws_node_demo1:
  assumes "opts = [(''template'', ''aws-node''), (''name'', ''demo1'')]"
    and "path_join env dir ''demo1'' \<notin> files w"
  shows "acquireTemplate env opts dir w =
     (let w3 = w\<lparr>io_log := io_log w @
                 [FsAccess (path_join env dir ''demo1''),
                  StdoutWrite (LF @ ''Downloading '' @ DQ @ ''aws-node'' @ DQ @ '' template...'' @ LF),
                  DownloadTemplateFromRepo
                    ''https://github.com/serverless/examples/tree/master/aws-node''
                    (Some ''aws-node'') ''demo1'']\<rparr>
      in case downloadTemplateFromRepo env
                ''https://github.com/serverless/examples/tree/master/aws-node''
                (Some ''aws-node'') ''demo1'' (files w) of
           (Some err, fs) \<Rightarrow> (Throws (catch_template opts err), w3\<lparr>files := fs\<rparr>)
         | (None, fs) \<Rightarrow> (Returns (Some (path_join env dir ''demo1'', ''demo1'')), w3\<lparr>files := fs\<rparr>))"
proof -
  have o: "opt opts ''template-path'' = None" "opt opts ''template-url'' = None"
    "opt opts ''template'' = Some ''aws-node''" "opt opts ''name'' = Some ''demo1''"
    using assms(1) by (simp_all add: opt_def)
  have "resolveProjectNameInput env opts dir (Some ''aws-node'') w
          = (Returns ''demo1'', record_io (FsAccess (path_join env dir ''demo1'')) w)"
    using demo1_resolved [OF o(4) assms(2)] .
  then show ?thesis
    by (simp add: acquireTemplate_def fromTemplateName_def chooseProjectType_def o call_def
        record_io_def Let_def split: prod.splits option.splits)
qed


lemma named_options_list:
  "options (demo_context named_options) = [(''template'', ''aws-node''), (''name'', ''demo1'')]"
  by (simp add: demo_context_def named_options_def)

lemma demo_workingDir: "workingDir_of env (demo_context opts) = ''/work''"
  by (simp add: workingDir_of_def demo_context_def)

lemmas demo_envs = demo_env_def spawn_fails_def no_manifest_def download_fails_def picks_other_def

lemma installDependencies_unresolved:
  assumes "path_join env projectDir ''package.json'' \<in> files w"
    and "npmCommandDeferred env = Inl rejection"
  shows "installDependencies env projectDir projectName w =
           (Some rejection,
            record_io (StdoutWrite (INSTALLING_MESSAGE projectName))
              (record_io (FsAccess (path_join env projectDir ''package.json'')) w))"
  using assms by (simp add: installDependencies_def fsp_access_def Let_def)

text \<open>
  C7, amended. Let the project be materialized in \<open>projectDir\<close>. When no \<^verbatim>\<open>package.json\<close>
  exists there, \<^verbatim>\<open>run\<close> goes on to the finalization after the existence check alone: nothing
  is written and nothing is spawned. When the manifest exists, \<^verbatim>\<open>run\<close> announces the
  installation and awaits the package-manager command. If the command resolves, \<^verbatim>\<open>run\<close>
  spawns it with the argument \<^verbatim>\<open>install\<close> in \<open>projectDir\<close>; if the spawn succeeds, or fails
  with code \<^verbatim>\<open>ENOENT\<close>, \<^verbatim>\<open>run\<close> goes on to the finalization, in the second case after writing
  the warning; if it fails in any other way, \<^verbatim>\<open>run\<close> throws the structured error tagged
  \<^verbatim>\<open>DEPENDENCIES_INSTALL_FAILED\<close> whose message ends with the underlying message. If the
  command does not resolve (line 221 awaits it outside the \<^verbatim>\<open>try\<close>), nothing is spawned and
  \<^verbatim>\<open>run\<close> throws the rejection unchanged.
\<close>

theorem dependency_installation:
  assumes "length (filter (\<lambda>key. key \<in> {''template-path'', ''template'', ''template-url''})
                     (Object_keys (options ctx))) \<le> 1"
    and "confirmNewProject env (options ctx) w = (True, w1)"
    and "acquireTemplate env (options ctx) (workingDir_of env ctx) w1
           = (Returns (Some (projectDir, projectName)), w2)"
  shows
    "(path_join env projectDir ''package.json'' \<notin> files w2 \<longrightarrow>
        run env ctx w =
          finalize env ctx projectDir projectName
            (record_io (FsAccess (path_join env projectDir ''package.json'')) w2))
     \<and> (path_join env projectDir ''package.json'' \<in> files w2
        \<and> npmCommandDeferred env = Inr npmCommand
        \<and> spawn env npmCommand [''install''] projectDir (files w2) = (result, fs) \<longrightarrow>
          (let w3 = (record_io (Spawn npmCommand [''install''] projectDir)
                       (record_io (StdoutWrite (INSTALLING_MESSAGE projectName))
                          (record_io (FsAccess (path_join env projectDir ''package.json'')) w2)))
                    \<lparr>files := fs\<rparr>
           in (result = None \<longrightarrow>
                 run env ctx w = finalize env ctx projectDir projectName w3)
            \<and> (\<forall>err. result = Some err \<and> code err = Some ''ENOENT'' \<longrightarrow>
                 run env ctx w =
                   finalize env ctx projectDir projectName
                     (record_io (StdoutWrite (LF @ chalk_yellow env NPM_MISSING_WARNING @ LF)) w3))
            \<and> (\<forall>err. result = Some err \<and> code err \<noteq> Some ''ENOENT'' \<longrightarrow>
                 run env ctx w =
                   (Throws (ServerlessError (''Cannot install dependencies: '' @ message err)
                              ''DEPENDENCIES_INSTALL_FAILED''), ctx, w3))))
     \<and> (path_join env projectDir ''package.json'' \<in> files w2
        \<and> npmCommandDeferred env = Inl rejection \<longrightarrow>
          run env ctx w =
            (Throws rejection, ctx,
             record_io (StdoutWrite (INSTALLING_MESSAGE projectName))
               (record_io (FsAccess (path_join env projectDir ''package.json'')) w2)))"
proof -
  from assms(1)
  have guard: "length (filter (\<lambda>key. key \<in> set templateOptions) (Object_keys (options ctx))) \<le> 1"
    by (simp add: set_templateOptions)
  note step = run_after_acquire [OF guard assms(2,3)]
  have absent: "run env ctx w =
          finalize env ctx projectDir projectName
            (record_io (FsAccess (path_join env projectDir ''package.json'')) w2)"
    if "path_join env projectDir ''package.json'' \<notin> files w2"
    unfolding step by (simp add: installDependencies_no_manifest [OF that])
  have present: "let w3 = (record_io (Spawn npmCommand [''install''] projectDir)
                       (record_io (StdoutWrite (INSTALLING_MESSAGE projectName))
                          (record_io (FsAccess (path_join env projectDir ''package.json'')) w2)))
                    \<lparr>files := fs\<rparr>
           in (result = None \<longrightarrow>
                 run env ctx w = finalize env ctx projectDir projectName w3)
            \<and> (\<forall>err. result = Some err \<and> code err = Some ''ENOENT'' \<longrightarrow>
                 run env ctx w =
                   finalize env ctx projectDir projectName
                     (record_io (StdoutWrite (LF @ chalk_yellow env NPM_MISSING_WARNING @ LF)) w3))
            \<and> (\<forall>err. result = Some err \<and> code err \<noteq> Some ''ENOENT'' \<longrightarrow>
                 run env ctx w =
                   (Throws (ServerlessError (''Cannot install dependencies: '' @ message err)
                              ''DEPENDENCIES_INSTALL_FAILED''), ctx, w3))"
    if "path_join env projectDir ''package.json'' \<in> files w2"
      and "npmCommandDeferred env = Inr npmCommand"
      and "spawn env npmCommand [''install''] projectDir (files w2) = (result, fs)"
    unfolding step installDependencies_manifest [OF that]
    by (simp add: Let_def)
  have unresolved: "run env ctx w =
            (Throws rejection, ctx,
             record_io (StdoutWrite (INSTALLING_MESSAGE projectName))
               (record_io (FsAccess (path_join env projectDir ''package.json'')) w2))"
    if "path_join env projectDir ''package.json'' \<in> files w2"
      and "npmCommandDeferred env = Inl rejection"
    unfolding step installDependencies_unresolved [OF that]
    by simp
  from absent present unresolved show ?thesis by blast
qed


theorem dependency_installation_witness:
  "fst (run (spawn_fails enoent_error) (demo_context named_options) empty_world) = Returns ()
   \<and> StdoutWrite (LF @ NPM_MISSING_WARNING @ LF)
       \<in> set (io_log (snd (snd (run (spawn_fails enoent_error) (demo_context named_options)
                                  empty_world))))
   \<and> fst (run (spawn_fails exit_error) (demo_context named_options) empty_world)
       = Throws (ServerlessError ''Cannot install dependencies: npm exited with code 1''
                   ''DEPENDENCIES_INSTALL_FAILED'')
   \<and> fst (run no_manifest (demo_context named_options) empty_world) = Returns ()
   \<and> io_log (snd (snd (run no_manifest (demo_context named_options) empty_world)))
       = [FsAccess ''/work/demo1'',
          StdoutWrite (LF @ ''Downloading '' @ DQ @ ''aws-node'' @ DQ @ '' template...'' @ LF),
          DownloadTemplateFromRepo ''https://github.com/serverless/examples/tree/master/aws-node''
            (Some ''aws-node'') ''demo1'',
          FsAccess ''/work/demo1/package.json'',
          FsUnlink ''/work/demo1/serverless.template.yml'',
          StdoutWrite (LF @ ''Project successfully created in '' @ SQ @ ''demo1'' @ SQ
                       @ '' folder.'' @ LF),
          ResolveConfigurationPath ''/work/demo1'',
          ReadConfiguration ''/work/demo1/serverless.yml'',
          ResolveVariables]
   \<and> fst (run npm_unresolved (demo_context named_options) empty_world) = Throws lookup_error"
proof -
  let ?ctx = "demo_context named_options"
  let ?log = "[FsAccess ''/work/demo1'',
          StdoutWrite (LF @ ''Downloading '' @ DQ @ ''aws-node'' @ DQ @ '' template...'' @ LF),
          DownloadTemplateFromRepo ''https://github.com/serverless/examples/tree/master/aws-node''
            (Some ''aws-node'') ''demo1'']"
  let ?w2 = "\<lparr>files = {''/work/demo1/package.json'', ''/work/demo1/serverless.yml'',
                        ''/work/demo1''}, io_log = ?log\<rparr>"
  let ?v2 = "\<lparr>files = {''/work/demo1/serverless.yml'', ''/work/demo1''}, io_log = ?log\<rparr>"
  have acquired: "acquireTemplate (spawn_fails err) (options ?ctx)
          (workingDir_of (spawn_fails err) ?ctx) empty_world
        = (Returns (Some (''/work/demo1'', ''demo1'')), ?w2)" for err
    using acquire_aws_node_demo1 [OF named_options_list, of "spawn_fails err" "''/work''" empty_world]
    by (simp add: demo_workingDir demo_envs empty_world_def)
  have acquired': "acquireTemplate no_manifest (options ?ctx)
          (workingDir_of no_manifest ?ctx) empty_world
        = (Returns (Some (''/work/demo1'', ''demo1'')), ?v2)"
    using acquire_aws_node_demo1 [OF named_options_list, of no_manifest "''/work''" empty_world]
    by (simp add: demo_workingDir demo_envs empty_world_def)
  have present: "path_join (spawn_fails err) ''/work/demo1'' ''package.json'' \<in> files ?w2
        \<and> npmCommandDeferred (spawn_fails err) = Inr ''npm''
        \<and> spawn (spawn_fails err) ''npm'' [''install''] ''/work/demo1'' (files ?w2)
            = (Some err, files ?w2)" for err
    by (simp add: demo_envs)
  have absent: "path_join no_manifest ''/work/demo1'' ''package.json'' \<notin> files ?v2"
    by (simp add: demo_envs)
  have acquired'': "acquireTemplate npm_unresolved (options ?ctx)
          (workingDir_of npm_unresolved ?ctx) empty_world
        = (Returns (Some (''/work/demo1'', ''demo1'')), ?w2)"
    using acquire_aws_node_demo1 [OF named_options_list, of npm_unresolved "''/work''" empty_world]
    by (simp add: demo_workingDir demo_envs npm_unresolved_def empty_world_def)
  have rejected: "path_join npm_unresolved ''/work/demo1'' ''package.json'' \<in> files ?w2
        \<and> npmCommandDeferred npm_unresolved = Inl lookup_error"
    by (simp add: demo_envs npm_unresolved_def)
  have unresolved: "fst (run npm_unresolved ?ctx empty_world) = Throws lookup_error"
    using dependency_installation [OF named_options_facts(1) named_options_start(1) acquired'',
      THEN conjunct2, THEN conjunct2, rule_format, OF rejected]
    by simp
  note failing = dependency_installation [OF named_options_facts(1) named_options_start(1) acquired,
      THEN conjunct2, THEN conjunct1, rule_format, OF present, unfolded Let_def]
  have missing: "run (spawn_fails enoent_error) ?ctx empty_world
        = finalize (spawn_fails enoent_error) ?ctx ''/work/demo1'' ''demo1''
            (record_io (StdoutWrite (LF @ chalk_yellow (spawn_fails enoent_error)
                                            NPM_MISSING_WARNING @ LF))
               ((record_io (Spawn ''npm'' [''install''] ''/work/demo1'')
                   (record_io (StdoutWrite (INSTALLING_MESSAGE ''demo1''))
                      (record_io (FsAccess (path_join (spawn_fails enoent_error) ''/work/demo1''
                                              ''package.json'')) ?w2)))
                \<lparr>files := files ?w2\<rparr>))"
    using failing [of enoent_error] by (simp add: enoent_error_def)
  have broken: "fst (run (spawn_fails exit_error) ?ctx empty_world)
        = Throws (ServerlessError ''Cannot install dependencies: npm exited with code 1''
                    ''DEPENDENCIES_INSTALL_FAILED'')"
    using failing [of exit_error] by (simp add: exit_error_def)
  have skipped: "run no_manifest ?ctx empty_world
        = finalize no_manifest ?ctx ''/work/demo1'' ''demo1''
            (record_io (FsAccess (path_join no_manifest ''/work/demo1'' ''package.json'')) ?v2)"
    using dependency_installation [OF named_options_facts(1) named_options_start(1) acquired',
      THEN conjunct1, rule_format, OF absent] .
  have "fst (run (spawn_fails enoent_error) ?ctx empty_world) = Returns ()"
    unfolding missing
    by (simp add: finalize_def call_def record_io_def demo_envs)
  moreover have "StdoutWrite (LF @ NPM_MISSING_WARNING @ LF)
       \<in> set (io_log (snd (snd (run (spawn_fails enoent_error) ?ctx empty_world))))"
    unfolding missing
    by (simp add: finalize_def call_def record_io_def demo_envs)
  moreover have "fst (run no_manifest ?ctx empty_world) = Returns ()"
    unfolding skipped
    by (simp add: finalize_def call_def record_io_def demo_envs)
  moreover have "io_log (snd (snd (run no_manifest ?ctx empty_world)))
       = ?log @ [FsAccess ''/work/demo1/package.json'',
          FsUnlink ''/work/demo1/serverless.template.yml'',
          StdoutWrite (LF @ ''Project successfully created in '' @ SQ @ ''demo1'' @ SQ
                       @ '' folder.'' @ LF),
          ResolveConfigurationPath ''/work/demo1'',
          ReadConfiguration ''/work/demo1/serverless.yml'',
          ResolveVariables]"
    unfolding skipped
    by (simp add: finalize_def call_def record_io_def demo_envs)
  ultimately show ?thesis
    using broken unresolved by simp
qed

text \<open>
  The claim as stated fails when the package-manager command does not resolve: the
  manifest is present, yet no install is spawned, and the error thrown is the rejection
  itself, not one tagged \<^verbatim>\<open>DEPENDENCIES_INSTALL_FAILED\<close>.
\<close>

theorem unresolved_command_counterexample:
  "run npm_unresolved (demo_context named_options) empty_world
     = (Throws lookup_error, demo_context named_options,
        \<lparr>files = {''/work/demo1/package.json'', ''/work/demo1/serverless.yml'', ''/work/demo1''},
          io_log =
            [FsAccess ''/work/demo1'',
             StdoutWrite (LF @ ''Downloading '' @ DQ @ ''aws-node'' @ DQ @ '' template...'' @ LF),
             DownloadTemplateFromRepo
               ''https://github.com/serverless/examples/tree/master/aws-node''
               (Some ''aws-node'') ''demo1'',
             FsAccess ''/work/demo1/package.json'',
             StdoutWrite (INSTALLING_MESSAGE ''demo1'')]\<rparr>)
   \<and> code lookup_error \<noteq> Some ''DEPENDENCIES_INSTALL_FAILED''"
proof -
  let ?ctx = "demo_context named_options"
  let ?w2 = "\<lparr>files = {''/work/demo1/package.json'', ''/work/demo1/serverless.yml'',
                        ''/work/demo1''},
              io_log = [FsAccess ''/work/demo1'',
                StdoutWrite (LF @ ''Downloading '' @ DQ @ ''aws-node'' @ DQ @ '' template...'' @ LF),
                DownloadTemplateFromRepo
                  ''https://github.com/serverless/examples/tree/master/aws-node''
                  (Some ''aws-node'') ''demo1'']\<rparr>"
  have guard: "length (filter (\<lambda>key. key \<in> set templateOptions) (Object_keys (options ?ctx))) \<le> 1"
    using named_options_facts(1) by (simp add: set_templateOptions)
  have acquired: "acquireTemplate npm_unresolved (options ?ctx)
          (workingDir_of npm_unresolved ?ctx) empty_world
        = (Returns (Some (''/work/demo1'', ''demo1'')), ?w2)"
    using acquire_aws_node_demo1 [OF named_options_list, of npm_unresolved "''/work''" empty_world]
    by (simp add: demo_workingDir demo_envs npm_unresolved_def empty_world_def)
  have install: "installDependencies npm_unresolved ''/work/demo1'' ''demo1'' ?w2
        = (Some lookup_error,
           record_io (StdoutWrite (INSTALLING_MESSAGE ''demo1''))
             (record_io (FsAccess ''/work/demo1/package.json'') ?w2))"
    using installDependencies_unresolved [of npm_unresolved "''/work/demo1''" ?w2 lookup_error
        "''demo1''"]
    by (simp add: demo_envs npm_unresolved_def)
  have "run npm_unresolved ?ctx empty_world
     = (Throws lookup_error, ?ctx,
        record_io (StdoutWrite (INSTALLING_MESSAGE ''demo1''))
          (record_io (FsAccess ''/work/demo1/package.json'') ?w2))"
    unfolding run_after_acquire [OF guard named_options_start(1) acquired] install by simp
  then show ?thesis
    by (simp add: record_io_def lookup_error_def)
qed


subsection \<open>The scenario of a named template and an explicit name\<close>









end
